theory Spec2Isabelle
  imports Complex_Main
begin

section \<open>Values that cross the renderer's boundary\<close>

text \<open>
  OpenGL object names (\<open>GLuint\<close>) and uniform locations (\<open>GLint\<close>). No arithmetic is done
  on either, so they are kept as unbounded numbers; \<open>0\<close> is the null object name and
  \<open>-1\<close> is what \<open>glGetUniformLocation\<close> answers for a name the program does not have.
\<close>

type_synonym GLuint = nat
type_synonym GLint = int

definition uniform_not_found :: GLint where
  "uniform_not_found = -1"

text \<open>
  Floating-point values are never computed with: a \<open>float\<close> is kept as the expression the
  source builds it from, a number read from the configuration or a literal (\<open>float_of\<close>),
  or the quotient \<open>1.0 / x\<close> (\<open>one_over\<close>), left unevaluated. A matrix is the chain of
  \<open>glm\<close> calls that produced it, starting from \<open>glm::mat4(d)\<close>.
\<close>

datatype glm_float = float_of rat | one_over glm_float

datatype vec3 = vec3 glm_float glm_float glm_float

datatype mat4 = mat4 glm_float | translate mat4 vec3 | scale mat4 vec3

datatype buffer_bit = GL_COLOR_BUFFER_BIT | GL_DEPTH_BUFFER_BIT

text \<open>The handle of a texture as the texture manager returns it.\<close>

type_synonym texture2D = nat

text \<open>
  The geometry a renderable points to, and the renderable itself (\<open>render_object\<close>), with
  the members the renderer reads: \<open>geometry->has_data()\<close>, \<open>color_texture\<close> (a string,
  empty when there is none), \<open>normalmap\<close> and \<open>data_texture\<close> (tested, then
  dereferenced) and \<open>position\<close>.
\<close>

record gl_mesh =
  vertex_array :: GLuint
  has_data :: bool

record render_object =
  geometry :: gl_mesh
  position :: vec3
  color_texture :: string
  normalmap :: "string option"
  data_texture :: "string option"

record per_frame_uniforms =
  gbufferProjection :: mat4
  gbufferModelView :: mat4

record camera =
  projection_matrix :: mat4
  view_matrix :: mat4

text \<open>The \<open>"settings"\<close> object of the configuration, with the four keys the renderer reads.\<close>

record settings =
  viewWidth :: rat
  viewHeight :: rat
  scalefactor :: rat
  shadowMapResolution :: rat

datatype framebuffer_kind = main_target | shadow_target

text \<open>
  Every call the renderer makes on OpenGL or on one of its collaborators (mesh store,
  texture manager, uniform buffer store, window, camera, loaders). Of the logging calls,
  one kind is recorded: the trace line of a pass whose body is nothing but that line
  (\<open>LogTrace\<close>), since it is all that pass does. The other logging calls and the
  profiling calls are not recorded.
\<close>

datatype call =
    RecalculateFrustum
  | UploadNewGeometry
  | GlClear "buffer_bit set"
  | SendData per_frame_uniforms
  | GlUseProgram GLuint
  | GlDeleteProgram GLuint
  | GetMeshesForShader string
  | GetTexture string
  | TextureBind texture2D nat
  | GlGetUniformLocation GLuint string
  | GlUniformMatrix4fv GLint mat4
  | SetActive gl_mesh
  | Draw gl_mesh
  | EndFrame
  | LogTrace string
  | LoadShaderpack string
  | RegisterAllBuffersWithShader GLuint
  | FramebufferBuild framebuffer_kind rat rat "nat list"

text \<open>
  The exceptions a run can end with. \<open>null_pointer_dereferenced\<close> is not one of them: it
  marks a run that goes through an empty \<open>shared_ptr\<close>, whose behaviour C++ leaves
  undefined, so that the run has a value here; nothing is stated about such a run.
\<close>

datatype error =
    shader_not_found string
  | texture_not_found string
  | framebuffer_size_not_set
  | null_pointer_dereferenced

section \<open>Actions: state, failure and the calls issued\<close>

text \<open>
  A C++ function that mutates an object of type \<open>'s\<close>, may throw, and makes calls on the
  outside is a function from the object's state to the outcome (\<open>Inl\<close> the exception,
  \<open>Inr\<close> the returned value), the state it leaves behind (kept when it throws, as C++
  keeps it) and the calls it made, oldest first.
\<close>

type_synonym ('s, 'a) action = "'s \<Rightarrow> (error + 'a) \<times> 's \<times> call list"

definition returns :: "'a \<Rightarrow> ('s, 'a) action" where
  "returns x s = (Inr x, s, [])"

definition throw :: "error \<Rightarrow> ('s, 'a) action" where
  "throw e s = (Inl e, s, [])"

definition issue :: "call \<Rightarrow> ('s, unit) action" where
  "issue c s = (Inr (), s, [c])"

definition bind :: "('s, 'a) action \<Rightarrow> ('a \<Rightarrow> ('s, 'b) action) \<Rightarrow> ('s, 'b) action" where
  "bind m f s =
     (case m s of
        (Inl e, s1, cs) \<Rightarrow> (Inl e, s1, cs)
      | (Inr x, s1, cs) \<Rightarrow> (case f x s1 of (r, s2, cs2) \<Rightarrow> (r, s2, cs @ cs2)))"

text \<open>Statements one after the other; a range-based \<open>for\<close> is the sequence of its bodies.\<close>

fun sequence :: "('s, unit) action list \<Rightarrow> ('s, unit) action" where
  "sequence [] = returns ()"
| "sequence (m # ms) = bind m (\<lambda>_. sequence ms)"

definition for_each :: "'a list \<Rightarrow> ('a \<Rightarrow> ('s, unit) action) \<Rightarrow> ('s, unit) action" where
  "for_each xs body = sequence (map body xs)"

definition outcome :: "(error + 'a) \<times> 's \<times> call list \<Rightarrow> error + 'a" where
  "outcome r = fst r"

definition state_after :: "(error + 'a) \<times> 's \<times> call list \<Rightarrow> 's" where
  "state_after r = fst (snd r)"

definition calls :: "(error + 'a) \<times> 's \<times> call list \<Rightarrow> call list" where
  "calls r = snd (snd r)"

section \<open>The material model (materials.h)\<close>

datatype state_enum =
    blending
  | invert_culing
  | disable_culling
  | disable_depth_write
  | enable_stencil_test
  | stencil_write
  | disable_color_write
  | enable_alpha_to_coverage

datatype texture_filter_enum = texel_aa | bilinear | point

datatype texture_wrap_mode_enum = repeat | clamp

datatype vertex_field =
    position_field
  | color
  | main_uv
  | lightmap_uv
  | normal
  | tangent
  | mid_tex_coord
  | virtual_texture_id
  | mc_entity_id
  | empty_field

datatype texture_location_enum = dynamic | in_user_package

text \<open>
  The structs of the header, field by field. Four members are renamed because the name
  is taken: \<open>sampler_state::filter\<close> is \<open>sampler_filter\<close>, \<open>framebuffer_output::index\<close>
  is \<open>attachment_index\<close>, \<open>material_state::name\<close> is \<open>state_name\<close> and
  \<open>material_state::defines\<close> is \<open>defined_symbols\<close>; the enumerators
  \<open>vertex_field::position\<close> and \<open>vertex_field::empty\<close> are \<open>position_field\<close> and
  \<open>empty_field\<close>. The \<open>uint32_t\<close> and \<open>uint8_t\<close>
  members are only stored and compared, never added to, and are kept as \<open>nat\<close>.
\<close>

record sampler_state =
  sampler_index :: nat
  sampler_filter :: texture_filter_enum
  wrap_mode :: texture_wrap_mode_enum

record texture =
  index :: nat
  texture_location :: texture_location_enum
  texture_name :: string
  calculate_mipmaps :: bool

record framebuffer_output =
  attachment_index :: nat
  format :: string

record material_state =
  state_name :: string
  parent :: string
  defined_symbols :: "string list"
  states :: "state_enum list"
  vertex_shader :: string
  fragment_shader :: string
  geometry_shader :: string
  tessellation_evaluation_shader :: string
  tessellation_control_shader :: string
  vertex_fields :: "vertex_field list"
  sampler_states :: "sampler_state list"
  textures :: "texture list"
  filters :: string
  fallback :: string
  pass_index :: nat
  outputs :: "framebuffer_output list"
  output_width :: nat
  output_height :: nat

section \<open>The shader program (gl_shader_program.h)\<close>

text \<open>
  The class's data members. \<open>uniform_locations\<close> is the \<open>unordered_map\<close> from uniform
  name to location, kept as an association list that is only ever extended by a name
  it does not hold. The member \<open>filter\<close> is called \<open>filter_name\<close> here.
\<close>

record gl_shader_program =
  gl_name :: GLuint
  name :: string
  added_shaders :: "GLuint list"
  uniform_locations :: "(string \<times> GLint) list"
  filter_name :: string

text \<open>
  The copy constructor is declared \<open>= default\<close> in the header: member-wise copy of all
  five data members.
\<close>

definition copy_construct :: "gl_shader_program \<Rightarrow> gl_shader_program" where
  "copy_construct other =
     \<lparr>gl_name = gl_name other, name = name other, added_shaders = added_shaders other,
      uniform_locations = uniform_locations other, filter_name = filter_name other\<rparr>"

text \<open>
  Modelled from the spec: the body of the move constructor
  \<open>gl_shader_program(gl_shader_program &&other)\<close> is not in the header. The spec, 4.2: it
  transfers GPU-resource ownership and the source's handle becomes null. The result is the
  new object and the state the source is left in; of the source only the handle is fixed
  by the spec.
\<close>

definition move_construct :: "gl_shader_program \<Rightarrow> gl_shader_program \<times> gl_shader_program" where
  "move_construct other = (other, other\<lparr>gl_name := 0\<rparr>)"

text \<open>
  Modelled from the spec: the body of the destructor is not in the header. The spec, 4.2:
  destruction releases the GPU program handle exactly once and is a no-op on a nulled
  instance.
\<close>

definition destructor :: "gl_shader_program \<Rightarrow> call list" where
  "destructor p = (if gl_name p = 0 then [] else [GlDeleteProgram (gl_name p)])"

text \<open>
  What the spec's sentence on copy-construction describes: a copy that carries the
  descriptor (name, filter) and none of what comes with the GPU object.
\<close>

definition spec_descriptor_copy :: "gl_shader_program \<Rightarrow> gl_shader_program" where
  "spec_descriptor_copy other =
     \<lparr>gl_name = 0, name = name other, added_shaders = [],
      uniform_locations = [], filter_name = filter_name other\<rparr>"

text \<open>
  Modelled from the spec: the body of \<open>bind()\<close> is not in the header. The spec, 4.2: it
  sets this program as the active GPU program.
\<close>

definition bind_program :: "(gl_shader_program, unit) action" where
  "bind_program p = issue (GlUseProgram (gl_name p)) p"

definition get_name :: "(gl_shader_program, string) action" where
  "get_name p = returns (name p) p"

text \<open>
  Modelled from the spec: the body of \<open>get_uniform_location\<close> is not in the header. Its
  documentation there and the spec, 4.2, agree: the first request for a name calls
  \<open>glGetUniformLocation\<close> and stores the answer, whatever it is; every later request is
  answered from the store. The driver's answer is the parameter \<open>driver\<close>.
\<close>

definition get_uniform_location ::
  "(GLuint \<Rightarrow> string \<Rightarrow> GLint) \<Rightarrow> string \<Rightarrow> (gl_shader_program, GLint) action" where
  "get_uniform_location driver uniform_name p =
     (case map_of (uniform_locations p) uniform_name of
        Some location \<Rightarrow> (Inr location, p, [])
      | None \<Rightarrow>
          (let location = driver (gl_name p) uniform_name
           in (Inr location,
               p\<lparr>uniform_locations := (uniform_name, location) # uniform_locations p\<rparr>,
               [GlGetUniformLocation (gl_name p) uniform_name])))"

text \<open>
  \<open>N\<close> requests for the same name, one after the other, each under its own driver (the
  driver may answer differently from one moment to the next); the action returns the
  locations the \<open>N\<close> requests returned.
\<close>

fun get_uniform_location_repeatedly ::
  "(GLuint \<Rightarrow> string \<Rightarrow> GLint) list \<Rightarrow> string \<Rightarrow> (gl_shader_program, GLint list) action" where
  "get_uniform_location_repeatedly [] uniform_name = returns []"
| "get_uniform_location_repeatedly (driver # drivers) uniform_name =
     bind (get_uniform_location driver uniform_name)
       (\<lambda>location. bind (get_uniform_location_repeatedly drivers uniform_name)
          (\<lambda>locations. returns (location # locations)))"

section \<open>The collaborators\<close>

text \<open>
  Modelled from the spec: the class \<open>shaderpack\<close> is not among the sources. The renderer uses
  \<open>get_name()\<close>, \<open>get_loaded_shaders()\<close> (the \<open>unordered_map\<close> from pass name to program,
  here an association list) and \<open>get_shader(name)\<close>; the spec, 4.4, adds that the pack
  retains each pass's pipeline state (\<open>passes\<close>, in discovery order) and that
  \<open>get_shader\<close> returns the compiled program or a not-found error.
\<close>

record shaderpack =
  pack_name :: string
  loaded_shaders :: "(string \<times> gl_shader_program) list"
  passes :: "material_state list"

definition get_shader :: "shaderpack \<Rightarrow> string \<Rightarrow> error + gl_shader_program" where
  "get_shader pack shader_name =
     (case map_of (loaded_shaders pack) shader_name of
        None \<Rightarrow> Inl (shader_not_found shader_name)
      | Some program \<Rightarrow> Inr program)"

text \<open>
  What the objects outside the renderer answer when asked: the texture the texture
  manager returns for a name, or the error it throws; the bucket the mesh store returns
  for a name (as it stands once \<open>upload_new_geometry\<close> has run; nothing else in a frame
  changes it); the pack
  \<open>load_shaderpack\<close> builds for a name; the driver's answer to \<open>glGetUniformLocation\<close>;
  and the \<open>"settings"\<close> object of the configuration.
\<close>

record collaborators =
  texture_manager :: "string \<Rightarrow> error + texture2D"
  meshes :: "string \<Rightarrow> render_object list"
  shaderpacks :: "string \<Rightarrow> shaderpack"
  driver :: "GLuint \<Rightarrow> string \<Rightarrow> GLint"
  options :: settings

text \<open>
  \<open>texture_manager::get_texture\<close> is not among the sources: what it does for a name,
  hand out a texture or throw, is the collaborator's answer \<open>texture_manager c\<close>.
\<close>

definition get_texture :: "collaborators \<Rightarrow> string \<Rightarrow> ('s, texture2D) action" where
  "get_texture c tex_name =
     bind (issue (GetTexture tex_name))
       (\<lambda>_. case texture_manager c tex_name of
               Inl e \<Rightarrow> throw e
             | Inr t \<Rightarrow> returns t)"

definition texture_bind :: "texture2D \<Rightarrow> nat \<Rightarrow> ('s, unit) action" where
  "texture_bind t binding = issue (TextureBind t binding)"

definition get_meshes_for_shader :: "collaborators \<Rightarrow> string \<Rightarrow> ('s, render_object list) action" where
  "get_meshes_for_shader c shader_name =
     bind (issue (GetMeshesForShader shader_name)) (\<lambda>_. returns (meshes c shader_name))"

text \<open>
  Modelled from the spec: the framebuffer builder is not among the sources. The spec, 4.3: it
  accumulates a size and a set of enabled colour attachments (enabling one twice changes
  nothing), \<open>build()\<close> without a size is an error, and \<open>build()\<close> does not consume what
  was accumulated. The first argument of \<open>build\<close> says which of the renderer's two
  builders the call is made on.
\<close>

record framebuffer_builder =
  framebuffer_size :: "(rat \<times> rat) option"
  color_attachments :: "nat list"

record framebuffer =
  width :: rat
  height :: rat
  attachments :: "nat list"


definition enable_color_attachment :: "nat \<Rightarrow> framebuffer_builder \<Rightarrow> framebuffer_builder" where
  "enable_color_attachment i b =
     (if i \<in> set (color_attachments b) then b
      else b\<lparr>color_attachments := color_attachments b @ [i]\<rparr>)"


section \<open>The render orchestrator (nova_renderer.cpp)\<close>

record nova_renderer =
  loaded_shaderpack :: "shaderpack option"
  main_framebuffer_builder :: framebuffer_builder
  shadow_framebuffer_builder :: framebuffer_builder
  main_framebuffer :: "framebuffer option"
  shadow_framebuffer :: "framebuffer option"
  player_camera :: camera

text \<open>
  \<open>auto& shader = loaded_shaderpack->get_shader(key); body(shader)\<close>: the body works on
  the program stored in the pack under \<open>key\<close>, through the reference, so what it changes
  (the uniform location cache) stays in the pack: \<open>put_shader\<close> is the write through the
  reference. With an empty \<open>loaded_shaderpack\<close> pointer the dereference is undefined
  behaviour, marked \<open>null_pointer_dereferenced\<close>: whatever is stated below about a pass
  is stated for a renderer that has a shaderpack loaded.
\<close>

definition put_shader :: "string \<Rightarrow> gl_shader_program \<Rightarrow> shaderpack \<Rightarrow> shaderpack" where
  "put_shader key program pack =
     pack\<lparr>loaded_shaders :=
       map (\<lambda>(k, p). if k = key then (k, program) else (k, p)) (loaded_shaders pack)\<rparr>"

definition with_shader ::
  "string \<Rightarrow> (gl_shader_program, 'a) action \<Rightarrow> (nova_renderer, 'a) action" where
  "with_shader key body r =
     (case loaded_shaderpack r of
        None \<Rightarrow> (Inl null_pointer_dereferenced, r, [])
      | Some pack \<Rightarrow>
          (case get_shader pack key of
             Inl e \<Rightarrow> (Inl e, r, [])
           | Inr program \<Rightarrow>
               (case body program of
                  (result, program', cs) \<Rightarrow>
                    (result, r\<lparr>loaded_shaderpack := Some (put_shader key program' pack)\<rparr>, cs))))"

definition upload_model_matrix :: "collaborators \<Rightarrow> render_object \<Rightarrow> (gl_shader_program, unit) action" where
  "upload_model_matrix c geom =
     (let model_matrix = translate (mat4 (float_of 1)) (position geom)
      in bind (get_uniform_location (driver c) ''gbufferModel'')
           (\<lambda>model_matrix_location. issue (GlUniformMatrix4fv model_matrix_location model_matrix)))"

definition upload_gui_model_matrix :: "collaborators \<Rightarrow> (gl_shader_program, unit) action" where
  "upload_gui_model_matrix c =
     (let config = options c;
          view_width = float_of (viewWidth config);
          view_height = float_of (viewHeight config);
          scalefactor' = float_of (scalefactor config);
          gui_model = mat4 (float_of 1);
          gui_model = translate gui_model (vec3 (float_of (-1)) (float_of 1) (float_of 0));
          gui_model = scale gui_model (vec3 scalefactor' scalefactor' (float_of 1));
          gui_model = scale gui_model
                        (vec3 (one_over view_width) (one_over view_height) (float_of 1));
          gui_model = scale gui_model (vec3 (float_of 1) (float_of (-1)) (float_of 1))
      in bind (get_uniform_location (driver c) ''gbufferModel'')
           (\<lambda>model_matrix_location. issue (GlUniformMatrix4fv model_matrix_location gui_model)))"

text \<open>The body of the loop of \<open>render_shader\<close>, for one renderable.\<close>

definition process_renderable :: "collaborators \<Rightarrow> render_object \<Rightarrow> (gl_shader_program, unit) action" where
  "process_renderable c geom =
     (if has_data (geometry geom) then
        sequence [
          (if color_texture geom \<noteq> [] then
             bind (get_texture c (color_texture geom)) (\<lambda>color_texture'. texture_bind color_texture' 0)
           else returns ()),
          (case normalmap geom of
             Some normalmap_name \<Rightarrow> bind (get_texture c normalmap_name) (\<lambda>t. texture_bind t 1)
           | None \<Rightarrow> returns ()),
          (case data_texture geom of
             Some data_texture_name \<Rightarrow> bind (get_texture c data_texture_name) (\<lambda>t. texture_bind t 2)
           | None \<Rightarrow> returns ()),
          bind (get_texture c ''lightmap'') (\<lambda>t. texture_bind t 3),
          upload_model_matrix c geom,
          issue (SetActive (geometry geom)),
          issue (Draw (geometry geom))]
      else returns ())"

definition render_shader :: "collaborators \<Rightarrow> (gl_shader_program, unit) action" where
  "render_shader c =
     sequence [
       bind_program,
       bind get_name (\<lambda>shader_name.
         bind (get_meshes_for_shader c shader_name) (\<lambda>geometry'.
           for_each geometry' (process_renderable c)))]"

definition render_shadow_pass :: "(nova_renderer, unit) action" where
  "render_shadow_pass = issue (LogTrace ''Rendering shadow pass'')"

definition render_gbuffers :: "collaborators \<Rightarrow> (nova_renderer, unit) action" where
  "render_gbuffers c =
     sequence [
       with_shader ''gbuffers_terrain'' (render_shader c),
       with_shader ''gbuffers_water'' (render_shader c)]"

definition render_composite_passes :: "(nova_renderer, unit) action" where
  "render_composite_passes = issue (LogTrace ''Rendering composite passes'')"

definition render_final_pass :: "(nova_renderer, unit) action" where
  "render_final_pass = issue (LogTrace ''Rendering final pass'')"

text \<open>The body of the loop of \<open>render_gui\<close>, for one renderable.\<close>

definition draw_gui_renderable :: "collaborators \<Rightarrow> render_object \<Rightarrow> (gl_shader_program, unit) action" where
  "draw_gui_renderable c geom =
     sequence [
       (if color_texture geom \<noteq> [] then
          bind (get_texture c (color_texture geom)) (\<lambda>color_texture'. texture_bind color_texture' 0)
        else returns ()),
       issue (SetActive (geometry geom)),
       issue (Draw (geometry geom))]"

definition render_gui :: "collaborators \<Rightarrow> (nova_renderer, unit) action" where
  "render_gui c =
     sequence [
       issue (GlClear {GL_DEPTH_BUFFER_BIT}),
       with_shader ''gui''
         (sequence [
            bind_program,
            upload_gui_model_matrix c,
            bind (get_meshes_for_shader c ''gui'') (\<lambda>gui_geometry.
              for_each gui_geometry (draw_gui_renderable c))])]"

definition update_gbuffer_ubos :: "(nova_renderer, unit) action" where
  "update_gbuffer_ubos r =
     issue (SendData \<lparr>gbufferProjection = projection_matrix (player_camera r),
                      gbufferModelView = view_matrix (player_camera r)\<rparr>) r"

definition render_frame :: "collaborators \<Rightarrow> (nova_renderer, unit) action" where
  "render_frame c =
     sequence [
       issue RecalculateFrustum,
       issue UploadNewGeometry,
       render_shadow_pass,
       issue (GlClear {GL_COLOR_BUFFER_BIT, GL_DEPTH_BUFFER_BIT}),
       update_gbuffer_ubos,
       render_gbuffers c,
       render_composite_passes,
       render_final_pass,
       render_gui c,
       issue EndFrame]"





section \<open>Reading a sequence of calls\<close>

text \<open>
  What is read off the calls a pass made: the meshes drawn, in order; the texture bindings
  made, in order; the matrices uploaded; and the calls that open a pass (the program made
  active, the bucket asked for).
\<close>

definition drawn :: "call list \<Rightarrow> gl_mesh list" where
  "drawn cs = concat (map (\<lambda>x. case x of Draw g \<Rightarrow> [g] | _ \<Rightarrow> []) cs)"

definition texture_bindings :: "call list \<Rightarrow> (texture2D \<times> nat) list" where
  "texture_bindings cs = concat (map (\<lambda>x. case x of TextureBind t u \<Rightarrow> [(t, u)] | _ \<Rightarrow> []) cs)"

definition matrix_uploads :: "call list \<Rightarrow> (GLint \<times> mat4) list" where
  "matrix_uploads cs =
     concat (map (\<lambda>x. case x of GlUniformMatrix4fv l m \<Rightarrow> [(l, m)] | _ \<Rightarrow> []) cs)"

definition pass_calls :: "call list \<Rightarrow> call list" where
  "pass_calls cs =
     filter (\<lambda>x. case x of GlUseProgram _ \<Rightarrow> True | GetMeshesForShader _ \<Rightarrow> True | _ \<Rightarrow> False) cs"

text \<open>
  The calls that fetch and bind one texture of a renderable at a binding point: none when
  the renderable names no such texture, the lookup and the binding when the texture
  manager returns a texture, the lookup alone when it throws.
\<close>

fun texture_calls :: "collaborators \<Rightarrow> string option \<Rightarrow> nat \<Rightarrow> call list" where
  "texture_calls c None binding = []"
| "texture_calls c (Some n) binding =
     (case texture_manager c n of
        Inr t \<Rightarrow> [GetTexture n, TextureBind t binding]
      | Inl e \<Rightarrow> [GetTexture n])"

definition color_texture_name :: "render_object \<Rightarrow> string option" where
  "color_texture_name geom = (if color_texture geom = [] then None else Some (color_texture geom))"

text \<open>
  The calls that upload a matrix to the uniform \<open>gbufferModel\<close> of a program, and the
  program afterwards: the location is asked of the driver only when the program's cache
  does not hold it yet.
\<close>

definition uniform_upload_calls :: "collaborators \<Rightarrow> gl_shader_program \<Rightarrow> mat4 \<Rightarrow> call list" where
  "uniform_upload_calls c p m =
     (case map_of (uniform_locations p) ''gbufferModel'' of
        Some location \<Rightarrow> [GlUniformMatrix4fv location m]
      | None \<Rightarrow>
          [GlGetUniformLocation (gl_name p) ''gbufferModel'',
           GlUniformMatrix4fv (driver c (gl_name p) ''gbufferModel'') m])"

definition model_location :: "collaborators \<Rightarrow> gl_shader_program \<Rightarrow> GLint" where
  "model_location c p =
     (case map_of (uniform_locations p) ''gbufferModel'' of
        Some location \<Rightarrow> location
      | None \<Rightarrow> driver c (gl_name p) ''gbufferModel'')"

definition remember_location :: "collaborators \<Rightarrow> gl_shader_program \<Rightarrow> gl_shader_program" where
  "remember_location c p =
     (case map_of (uniform_locations p) ''gbufferModel'' of
        Some location \<Rightarrow> p
      | None \<Rightarrow> p\<lparr>uniform_locations :=
                    (''gbufferModel'', driver c (gl_name p) ''gbufferModel'') # uniform_locations p\<rparr>)"

text \<open>
  The viewport transform of the GUI pass, written out: translate by \<open>(-1, 1, 0)\<close>, scale
  by the scale factor in x and y, scale by \<open>1 / width\<close> and \<open>1 / height\<close>, flip y.
\<close>

definition gui_model_matrix :: "settings \<Rightarrow> mat4" where
  "gui_model_matrix config =
     scale (scale (scale (translate (mat4 (float_of 1))
                            (vec3 (float_of (-1)) (float_of 1) (float_of 0)))
                     (vec3 (float_of (scalefactor config)) (float_of (scalefactor config))
                        (float_of 1)))
              (vec3 (one_over (float_of (viewWidth config)))
                 (one_over (float_of (viewHeight config))) (float_of 1)))
       (vec3 (float_of 1) (float_of (-1)) (float_of 1))"

section \<open>The claim on the gbuffer passes, in the spec's words\<close>

text \<open>
  The spec, 4.6 and 4.4: the gbuffer step runs the pack's passes that belong to the gbuffer
  stage, ordered by \<open>pass_index\<close> with a stable sort, and for each binds its program and
  asks for the bucket of the program's filter. A pass belongs to the gbuffer stage when
  its name starts with \<open>gbuffers\<close>, the reading the note in \<open>render_gbuffers\<close> gives.
\<close>

definition is_gbuffer_pass :: "material_state \<Rightarrow> bool" where
  "is_gbuffer_pass m = (take 8 (state_name m) = ''gbuffers'')"

definition spec_gbuffer_passes :: "shaderpack \<Rightarrow> material_state list" where
  "spec_gbuffer_passes pack = sort_key pass_index (filter is_gbuffer_pass (passes pack))"

definition spec_gbuffer_pass_calls :: "shaderpack \<Rightarrow> call list" where
  "spec_gbuffer_pass_calls pack =
     concat (map (\<lambda>m. case get_shader pack (state_name m) of
                         Inr p \<Rightarrow> [GlUseProgram (gl_name p), GetMeshesForShader (filter_name p)]
                       | Inl e \<Rightarrow> [])
               (spec_gbuffer_passes pack))"

section \<open>Sample data\<close>

definition example_program :: gl_shader_program where
  "example_program =
     \<lparr>gl_name = 7, name = ''gbuffers_terrain'', added_shaders = [3, 4],
      uniform_locations = [], filter_name = ''geometry_type::block''\<rparr>"

definition example_water_program :: gl_shader_program where
  "example_water_program =
     \<lparr>gl_name = 8, name = ''gbuffers_water'', added_shaders = [5, 6],
      uniform_locations = [], filter_name = ''geometry_type::water''\<rparr>"

definition example_gui_program :: gl_shader_program where
  "example_gui_program =
     \<lparr>gl_name = 9, name = ''gui'', added_shaders = [1, 2],
      uniform_locations = [(''gbufferModel'', 4)], filter_name = ''geometry_type::gui''\<rparr>"

definition example_entities_program :: gl_shader_program where
  "example_entities_program =
     \<lparr>gl_name = 10, name = ''gbuffers_entities'', added_shaders = [],
      uniform_locations = [], filter_name = ''geometry_type::entity''\<rparr>"

definition example_terrain_state :: material_state where
  "example_terrain_state =
     \<lparr>state_name = ''gbuffers_terrain'', parent = [], defined_symbols = [], states = [],
      vertex_shader = ''gbuffers_terrain'', fragment_shader = ''gbuffers_terrain'',
      geometry_shader = [], tessellation_evaluation_shader = [],
      tessellation_control_shader = [], vertex_fields = [position_field, main_uv],
      sampler_states = [], textures = [], filters = ''geometry_type::block'', fallback = [],
      pass_index = 1, outputs = [], output_width = 0, output_height = 0\<rparr>"

definition example_pack :: shaderpack where
  "example_pack =
     \<lparr>pack_name = ''A'',
      loaded_shaders =
        [(''gbuffers_terrain'', example_program), (''gbuffers_water'', example_water_program),
         (''gbuffers_entities'', example_entities_program), (''gui'', example_gui_program)],
      passes =
        [example_terrain_state,
         example_terrain_state\<lparr>state_name := ''gbuffers_water'',
           filters := ''geometry_type::water'', pass_index := 0\<rparr>,
         example_terrain_state\<lparr>state_name := ''gbuffers_entities'',
           filters := ''geometry_type::entity'', pass_index := 2\<rparr>,
         example_terrain_state\<lparr>state_name := ''gui'',
           filters := ''geometry_type::gui'', pass_index := 3\<rparr>]\<rparr>"

definition example_block :: render_object where
  "example_block =
     \<lparr>geometry = \<lparr>vertex_array = 21, has_data = True\<rparr>,
      position = vec3 (float_of 16) (float_of 64) (float_of 0),
      color_texture = ''terrain'', normalmap = Some ''terrain_n'', data_texture = None\<rparr>"

definition example_block_with_unknown_normalmap :: render_object where
  "example_block_with_unknown_normalmap = example_block\<lparr>normalmap := Some ''absent_n''\<rparr>"

definition example_pending_block :: render_object where
  "example_pending_block =
     \<lparr>geometry = \<lparr>vertex_array = 22, has_data = False\<rparr>,
      position = vec3 (float_of 32) (float_of 64) (float_of 0),
      color_texture = ''terrain'', normalmap = None, data_texture = None\<rparr>"

definition example_untextured_block :: render_object where
  "example_untextured_block =
     \<lparr>geometry = \<lparr>vertex_array = 23, has_data = True\<rparr>,
      position = vec3 (float_of 48) (float_of 64) (float_of 0),
      color_texture = [], normalmap = None, data_texture = Some ''terrain_s''\<rparr>"

definition example_button :: render_object where
  "example_button =
     \<lparr>geometry = \<lparr>vertex_array = 31, has_data = False\<rparr>,
      position = vec3 (float_of 0) (float_of 0) (float_of 0),
      color_texture = ''gui'', normalmap = None, data_texture = None\<rparr>"

definition example_panel :: render_object where
  "example_panel =
     \<lparr>geometry = \<lparr>vertex_array = 32, has_data = True\<rparr>,
      position = vec3 (float_of 0) (float_of 0) (float_of 0),
      color_texture = [], normalmap = None, data_texture = None\<rparr>"

text \<open>
  A texture manager that holds the listed textures and, as the spec, 6, has it, fails on
  any other name.
\<close>

definition texture_manager_holding :: "(string \<times> texture2D) list \<Rightarrow> string \<Rightarrow> error + texture2D" where
  "texture_manager_holding held tex_name =
     (case map_of held tex_name of
        Some t \<Rightarrow> Inr t
      | None \<Rightarrow> Inl (texture_not_found tex_name))"

definition example_collaborators :: collaborators where
  "example_collaborators =
     \<lparr>texture_manager =
        texture_manager_holding
          [(''terrain'', 1), (''terrain_n'', 2), (''terrain_s'', 3), (''lightmap'', 4), (''gui'', 5)],
      meshes = (\<lambda>n. if n = ''gbuffers_terrain''
                      then [example_block, example_pending_block, example_untextured_block]
                      else if n = ''gui'' then [example_button, example_panel] else []),
      shaderpacks = (\<lambda>n. example_pack\<lparr>pack_name := n\<rparr>),
      driver = (\<lambda>program uniform. if uniform = ''gbufferModel'' then 4 else uniform_not_found),
      options = \<lparr>viewWidth = 1920, viewHeight = 1080, scalefactor = 2,
                  shadowMapResolution = 2048\<rparr>\<rparr>"

definition example_collaborators_without_lightmap :: collaborators where
  "example_collaborators_without_lightmap =
     example_collaborators\<lparr>texture_manager :=
       texture_manager_holding [(''terrain'', 1), (''terrain_n'', 2), (''gui'', 5)]\<rparr>"

definition example_renderer :: nova_renderer where
  "example_renderer =
     \<lparr>loaded_shaderpack = Some example_pack,
      main_framebuffer_builder = \<lparr>framebuffer_size = None, color_attachments = []\<rparr>,
      shadow_framebuffer_builder = \<lparr>framebuffer_size = None, color_attachments = []\<rparr>,
      main_framebuffer = None,
      shadow_framebuffer = None,
      player_camera = \<lparr>projection_matrix = mat4 (float_of 1), view_matrix = mat4 (float_of 1)\<rparr>\<rparr>"

section \<open>Basic facts about actions\<close>

lemma bind_returns [simp]: "bind (returns x) f s = f x s"
  by (simp add: bind_def returns_def split: prod.splits)

lemma bind_throw [simp]: "bind (throw e) f s = (Inl e, s, [])"
  by (simp add: bind_def throw_def)

lemma bind_issue [simp]:
  "bind (issue c) f s = (outcome (f () s), state_after (f () s), c # calls (f () s))"
  by (simp add: bind_def issue_def outcome_def state_after_def calls_def split: prod.splits)

lemma outcome_simps [simp]: "outcome (r, s, cs) = r"
  by (simp add: outcome_def)

lemma state_after_simps [simp]: "state_after (r, s, cs) = s"
  by (simp add: state_after_def)

lemma calls_simps [simp]: "calls (r, s, cs) = cs"
  by (simp add: calls_def)

lemma action_collapse: "(outcome r, state_after r, calls r) = r"
  by (simp add: outcome_def state_after_def calls_def)

lemma bind_returns_left: "bind (returns x) f = f x"
  by (rule ext) simp

lemma bind_assoc: "bind (bind m f) g = bind m (\<lambda>x. bind (f x) g)"
  by (rule ext) (simp add: bind_def split: prod.splits sum.splits)

lemma sequence_Cons_unfold:
  "sequence (m # ms) s =
     (case m s of
        (Inl e, s1, cs) \<Rightarrow> (Inl e, s1, cs)
      | (Inr u, s1, cs) \<Rightarrow>
          (outcome (sequence ms s1), state_after (sequence ms s1), cs @ calls (sequence ms s1)))"
  by (simp add: bind_def outcome_def state_after_def calls_def split: prod.splits sum.splits)

lemma sequence_Nil_unfold: "sequence [] s = (Inr (), s, [])"
  by (simp add: returns_def)

lemmas run_sequence = sequence_Cons_unfold sequence_Nil_unfold prod.case sum.case
  outcome_simps state_after_simps calls_simps

lemma for_each_Nil: "for_each [] body s = (Inr (), s, [])"
  by (simp add: for_each_def returns_def)

lemma for_each_Cons:
  "for_each (x # xs) body s =
     (case body x s of
        (Inl e, s1, cs) \<Rightarrow> (Inl e, s1, cs)
      | (Inr u, s1, cs) \<Rightarrow>
          (outcome (for_each xs body s1), state_after (for_each xs body s1),
           cs @ calls (for_each xs body s1)))"
  by (simp only: for_each_def list.map sequence_Cons_unfold)

section \<open>Textures and uniforms of one renderable\<close>

lemma bind_texture_found:
  "texture_manager c n = Inr t \<Longrightarrow>
   bind (get_texture c n) (\<lambda>t. texture_bind t u) p = (Inr (), p, [GetTexture n, TextureBind t u])"
  by (simp add: get_texture_def texture_bind_def bind_def issue_def returns_def)

lemma bind_texture_missing:
  "texture_manager c n = Inl e \<Longrightarrow>
   bind (get_texture c n) (\<lambda>t. texture_bind t u) p = (Inl e, p, [GetTexture n])"
  by (simp add: get_texture_def texture_bind_def bind_def issue_def throw_def)

lemma optional_texture_step:
  assumes "\<forall>n. tex = Some n \<longrightarrow> (\<exists>t. texture_manager c n = Inr t)"
  shows "(case tex of Some n \<Rightarrow> bind (get_texture c n) (\<lambda>t. texture_bind t u) | None \<Rightarrow> returns ()) p
         = (Inr (), p, texture_calls c tex u)"
  using assms by (cases tex) (auto simp: returns_def bind_texture_found)

lemma color_texture_step:
  assumes "color_texture geom \<noteq> [] \<longrightarrow> (\<exists>t. texture_manager c (color_texture geom) = Inr t)"
  shows "(if color_texture geom \<noteq> [] then
            bind (get_texture c (color_texture geom)) (\<lambda>t. texture_bind t 0)
          else returns ()) p
         = (Inr (), p, texture_calls c (color_texture_name geom) 0)"
  using assms by (auto simp: returns_def bind_texture_found color_texture_name_def)

lemma optional_texture_step_fails:
  assumes "tex = Some n" and "texture_manager c n = Inl e"
  shows "(case tex of Some n \<Rightarrow> bind (get_texture c n) (\<lambda>t. texture_bind t u) | None \<Rightarrow> returns ()) p
         = (Inl e, p, [GetTexture n])"
  using assms by (simp add: bind_texture_missing)

lemma color_texture_step_fails:
  assumes "color_texture geom \<noteq> []" and "texture_manager c (color_texture geom) = Inl e"
  shows "(if color_texture geom \<noteq> [] then
            bind (get_texture c (color_texture geom)) (\<lambda>t. texture_bind t 0)
          else returns ()) p
         = (Inl e, p, [GetTexture (color_texture geom)])"
  using assms by (simp add: bind_texture_missing)

lemma upload_gui_model_matrix_run:
  "upload_gui_model_matrix c p =
     (Inr (), remember_location c p, uniform_upload_calls c p (gui_model_matrix (options c)))"
  by (simp add: upload_gui_model_matrix_def get_uniform_location_def bind_def issue_def Let_def
      gui_model_matrix_def uniform_upload_calls_def remember_location_def split: option.splits)

lemma upload_model_matrix_run:
  "upload_model_matrix c geom p =
     (Inr (), remember_location c p,
      uniform_upload_calls c p (translate (mat4 (float_of 1)) (position geom)))"
  by (simp add: upload_model_matrix_def get_uniform_location_def bind_def issue_def Let_def
      uniform_upload_calls_def remember_location_def split: option.splits)

lemma process_renderable_no_data:
  "\<not> has_data (geometry geom) \<Longrightarrow> process_renderable c geom = returns ()"
  by (simp add: process_renderable_def)

lemma get_texture_meshes_irrelevant:
  "get_texture (c\<lparr>meshes := m\<rparr>) = get_texture c"
  by (rule ext) (simp add: get_texture_def)

lemma upload_model_matrix_meshes_irrelevant:
  "upload_model_matrix (c\<lparr>meshes := m\<rparr>) = upload_model_matrix c"
  by (rule ext) (simp add: upload_model_matrix_def)

lemma process_renderable_meshes_irrelevant:
  "process_renderable (c\<lparr>meshes := m\<rparr>) = process_renderable c"
  by (rule ext)
    (simp add: process_renderable_def get_texture_meshes_irrelevant
      upload_model_matrix_meshes_irrelevant cong: option.case_cong)

lemma for_each_skip_no_data:
  "for_each (filter (\<lambda>g. has_data (geometry g)) xs) (process_renderable c)
   = for_each xs (process_renderable c)"
  unfolding for_each_def
  by (induction xs) (simp_all add: process_renderable_no_data bind_returns_left)

lemma process_renderable_run:
  assumes data: "has_data (geometry geom)"
    and color: "color_texture geom \<noteq> [] \<longrightarrow> (\<exists>t. texture_manager c (color_texture geom) = Inr t)"
    and normal: "\<forall>n. normalmap geom = Some n \<longrightarrow> (\<exists>t. texture_manager c n = Inr t)"
    and data_tex: "\<forall>n. data_texture geom = Some n \<longrightarrow> (\<exists>t. texture_manager c n = Inr t)"
  shows "texture_manager c ''lightmap'' = Inr lightmap \<Longrightarrow>
            process_renderable c geom p =
              (Inr (), remember_location c p,
               texture_calls c (color_texture_name geom) 0
               @ texture_calls c (normalmap geom) 1
               @ texture_calls c (data_texture geom) 2
               @ [GetTexture ''lightmap'', TextureBind lightmap 3]
               @ uniform_upload_calls c p (translate (mat4 (float_of 1)) (position geom))
               @ [SetActive (geometry geom), Draw (geometry geom)])"
    and "texture_manager c ''lightmap'' = Inl e \<Longrightarrow>
            process_renderable c geom p =
              (Inl e, p,
               texture_calls c (color_texture_name geom) 0
               @ texture_calls c (normalmap geom) 1
               @ texture_calls c (data_texture geom) 2
               @ [GetTexture ''lightmap''])"
proof -
  note s1 = color_texture_step [OF color, of p]
  note s2 = optional_texture_step [OF normal, of 1 p]
  note s3 = optional_texture_step [OF data_tex, of 2 p]
  {
    assume found: "texture_manager c ''lightmap'' = Inr lightmap"
    note s4 = bind_texture_found [OF found, of 3 p]
    show "process_renderable c geom p =
              (Inr (), remember_location c p,
               texture_calls c (color_texture_name geom) 0
               @ texture_calls c (normalmap geom) 1
               @ texture_calls c (data_texture geom) 2
               @ [GetTexture ''lightmap'', TextureBind lightmap 3]
               @ uniform_upload_calls c p (translate (mat4 (float_of 1)) (position geom))
               @ [SetActive (geometry geom), Draw (geometry geom)])"
      unfolding process_renderable_def
      by (simp only: data if_True run_sequence s1 s2 s3 s4 upload_model_matrix_run issue_def)
        simp
  }
  {
    assume missing: "texture_manager c ''lightmap'' = Inl e"
    note s4 = bind_texture_missing [OF missing, of 3 p]
    show "process_renderable c geom p =
              (Inl e, p,
               texture_calls c (color_texture_name geom) 0
               @ texture_calls c (normalmap geom) 1
               @ texture_calls c (data_texture geom) 2
               @ [GetTexture ''lightmap''])"
      unfolding process_renderable_def
      by (simp only: data if_True run_sequence s1 s2 s3 s4)
  }
qed

lemma draw_gui_renderable_run:
  assumes "color_texture geom \<noteq> [] \<longrightarrow> (\<exists>t. texture_manager c (color_texture geom) = Inr t)"
  shows "draw_gui_renderable c geom p =
           (Inr (), p, texture_calls c (color_texture_name geom) 0
                       @ [SetActive (geometry geom), Draw (geometry geom)])"
  unfolding draw_gui_renderable_def
  by (simp only: run_sequence color_texture_step [OF assms, of p] issue_def) simp

lemma gui_loop_run:
  assumes "\<forall>g \<in> set gs. color_texture g \<noteq> [] \<longrightarrow> (\<exists>t. texture_manager c (color_texture g) = Inr t)"
  shows "for_each gs (draw_gui_renderable c) p =
           (Inr (), p,
            concat (map (\<lambda>g. texture_calls c (color_texture_name g) 0
                              @ [SetActive (geometry g), Draw (geometry g)]) gs))"
  using assms
proof (induction gs)
  case Nil
  then show ?case by (simp add: for_each_Nil)
next
  case (Cons g gs)
  have step: "draw_gui_renderable c g p =
           (Inr (), p, texture_calls c (color_texture_name g) 0
                       @ [SetActive (geometry g), Draw (geometry g)])"
    using Cons.prems by (intro draw_gui_renderable_run) simp
  have rest: "for_each gs (draw_gui_renderable c) p =
           (Inr (), p,
            concat (map (\<lambda>g. texture_calls c (color_texture_name g) 0
                              @ [SetActive (geometry g), Draw (geometry g)]) gs))"
    using Cons.prems by (intro Cons.IH) simp
  show ?case
    by (simp add: for_each_Cons step rest)
qed

lemma gui_program_run:
  assumes "\<forall>g \<in> set (meshes c ''gui''). color_texture g \<noteq> [] \<longrightarrow>
             (\<exists>t. texture_manager c (color_texture g) = Inr t)"
  shows "sequence [bind_program, upload_gui_model_matrix c,
           bind (get_meshes_for_shader c ''gui'') (\<lambda>gui_geometry.
              for_each gui_geometry (draw_gui_renderable c))] p =
         (Inr (), remember_location c p,
          [GlUseProgram (gl_name p)]
          @ uniform_upload_calls c p (gui_model_matrix (options c))
          @ [GetMeshesForShader ''gui'']
          @ concat (map (\<lambda>g. texture_calls c (color_texture_name g) 0
                              @ [SetActive (geometry g), Draw (geometry g)]) (meshes c ''gui'')))"
proof -
  have loop: "bind (get_meshes_for_shader c ''gui'') (\<lambda>gui_geometry.
              for_each gui_geometry (draw_gui_renderable c)) (remember_location c p) =
     (Inr (), remember_location c p,
      GetMeshesForShader ''gui'' #
      concat (map (\<lambda>g. texture_calls c (color_texture_name g) 0
                              @ [SetActive (geometry g), Draw (geometry g)]) (meshes c ''gui'')))"
    by (simp add: get_meshes_for_shader_def bind_def issue_def returns_def
        gui_loop_run [OF assms])
  have b: "bind_program p = (Inr (), p, [GlUseProgram (gl_name p)])"
    by (simp add: bind_program_def issue_def)
  show ?thesis
    by (simp only: run_sequence b upload_gui_model_matrix_run loop) simp
qed

lemma with_shader_run:
  assumes "loaded_shaderpack r = Some pack"
    and "map_of (loaded_shaders pack) key = Some program"
  shows "with_shader key body r =
           (outcome (body program),
            r\<lparr>loaded_shaderpack := Some (put_shader key (state_after (body program)) pack)\<rparr>,
            calls (body program))"
  using assms
  by (simp add: with_shader_def get_shader_def outcome_def state_after_def calls_def
      split: prod.splits)

lemma render_gui_run:
  assumes pack: "loaded_shaderpack r = Some pack"
    and gui: "map_of (loaded_shaders pack) ''gui'' = Some gui_shader"
    and found: "\<forall>g \<in> set (meshes c ''gui''). color_texture g \<noteq> [] \<longrightarrow>
             (\<exists>t. texture_manager c (color_texture g) = Inr t)"
  shows "render_gui c r =
           (Inr (),
            r\<lparr>loaded_shaderpack := Some (put_shader ''gui'' (remember_location c gui_shader) pack)\<rparr>,
            [GlClear {GL_DEPTH_BUFFER_BIT}, GlUseProgram (gl_name gui_shader)]
            @ uniform_upload_calls c gui_shader (gui_model_matrix (options c))
            @ [GetMeshesForShader ''gui'']
            @ concat (map (\<lambda>g. texture_calls c (color_texture_name g) 0
                                @ [SetActive (geometry g), Draw (geometry g)]) (meshes c ''gui'')))"
proof -
  note inner = with_shader_run [OF pack gui]
  note body = gui_program_run [OF found, of gui_shader]
  have clear: "issue (GlClear {GL_DEPTH_BUFFER_BIT}) r = (Inr (), r, [GlClear {GL_DEPTH_BUFFER_BIT}])"
    by (simp add: issue_def)
  have ws: "with_shader ''gui''
         (sequence [
            bind_program,
            upload_gui_model_matrix c,
            bind (get_meshes_for_shader c ''gui'') (\<lambda>gui_geometry.
              for_each gui_geometry (draw_gui_renderable c))]) r =
        (Inr (),
         r\<lparr>loaded_shaderpack := Some (put_shader ''gui'' (remember_location c gui_shader) pack)\<rparr>,
         [GlUseProgram (gl_name gui_shader)]
          @ uniform_upload_calls c gui_shader (gui_model_matrix (options c))
          @ [GetMeshesForShader ''gui'']
          @ concat (map (\<lambda>g. texture_calls c (color_texture_name g) 0
                              @ [SetActive (geometry g), Draw (geometry g)]) (meshes c ''gui'')))"
    by (simp only: inner body outcome_simps state_after_simps calls_simps)
  show ?thesis
    unfolding render_gui_def
    by (simp only: run_sequence clear ws) simp
qed

section \<open>The calls that open a pass\<close>

lemma render_shader_unfold:
  "render_shader c p =
     (outcome (for_each (meshes c (name p)) (process_renderable c) p),
      state_after (for_each (meshes c (name p)) (process_renderable c) p),
      GlUseProgram (gl_name p) # GetMeshesForShader (name p)
        # calls (for_each (meshes c (name p)) (process_renderable c) p))"
proof -
  have b: "bind_program p = (Inr (), p, [GlUseProgram (gl_name p)])"
    by (simp add: bind_program_def issue_def)
  have rest: "bind get_name (\<lambda>shader_name.
         bind (get_meshes_for_shader c shader_name) (\<lambda>geometry'.
           for_each geometry' (process_renderable c))) p
      = (outcome (for_each (meshes c (name p)) (process_renderable c) p),
         state_after (for_each (meshes c (name p)) (process_renderable c) p),
         GetMeshesForShader (name p)
           # calls (for_each (meshes c (name p)) (process_renderable c) p))"
    by (simp add: get_name_def get_meshes_for_shader_def bind_def issue_def returns_def
        outcome_def state_after_def calls_def split: prod.splits sum.splits)
  show ?thesis
    unfolding render_shader_def
    by (simp only: run_sequence b rest)
      (simp add: outcome_def state_after_def calls_def split: prod.splits sum.splits)
qed

lemma pass_calls_append [simp]: "pass_calls (xs @ ys) = pass_calls xs @ pass_calls ys"
  by (simp add: pass_calls_def)

lemma pass_calls_texture_calls [simp]: "pass_calls (texture_calls c t u) = []"
  by (cases t) (simp_all add: pass_calls_def split: sum.splits)

lemma pass_calls_uniform_upload_calls [simp]: "pass_calls (uniform_upload_calls c p m) = []"
  by (simp add: pass_calls_def uniform_upload_calls_def split: option.splits)

lemma pass_calls_sequence:
  assumes "\<forall>m \<in> set ms. \<forall>s. pass_calls (calls (m s)) = []"
  shows "pass_calls (calls (sequence ms s)) = []"
  using assms
proof (induction ms arbitrary: s)
  case Nil
  then show ?case by (simp add: returns_def pass_calls_def)
next
  case (Cons m ms)
  have head: "pass_calls (calls (m s)) = []"
    using Cons.prems by simp
  have tail: "\<And>s1. pass_calls (calls (sequence ms s1)) = []"
    using Cons.prems by (intro Cons.IH) simp
  obtain res s1 cs where run: "m s = (res, s1, cs)"
    by (cases "m s")
  show ?case
    using head tail [of s1]
    by (cases res) (simp_all add: sequence_Cons_unfold run del: sequence.simps)
qed

lemma pass_calls_bind_texture:
  "pass_calls (calls (bind (get_texture c n) (\<lambda>t. texture_bind t u) s)) = []"
  by (cases "texture_manager c n")
    (simp_all add: bind_texture_found bind_texture_missing pass_calls_def)

lemma pass_calls_process_renderable:
  "pass_calls (calls (process_renderable c g p)) = []"
proof (cases "has_data (geometry g)")
  case False
  then show ?thesis by (simp add: process_renderable_def returns_def pass_calls_def)
next
  case True
  have nil: "pass_calls (calls (returns () s)) = []" for s :: gl_shader_program
    by (simp add: returns_def pass_calls_def)
  show ?thesis
    unfolding process_renderable_def
    apply (simp only: True if_True)
    apply (rule pass_calls_sequence)
    apply (auto simp: pass_calls_bind_texture nil upload_model_matrix_run issue_def
        split: option.splits)
    apply (simp_all add: pass_calls_def)
    done
qed

lemma pass_calls_renderable_loop:
  "pass_calls (calls (for_each gs (process_renderable c) p)) = []"
  unfolding for_each_def
  by (rule pass_calls_sequence) (simp add: pass_calls_process_renderable)

lemma pass_calls_render_shader:
  "pass_calls (calls (render_shader c p)) = [GlUseProgram (gl_name p), GetMeshesForShader (name p)]"
  by (simp add: render_shader_unfold pass_calls_renderable_loop [unfolded pass_calls_def]
      pass_calls_def)

lemma map_of_put_shader_other:
  "k \<noteq> key \<Longrightarrow> map_of (loaded_shaders (put_shader key p' pack)) k = map_of (loaded_shaders pack) k"
proof -
  have "k \<noteq> key \<Longrightarrow> map_of (map (\<lambda>(k, p). if k = key then (k, p') else (k, p)) al) k = map_of al k"
    for al :: "(string \<times> gl_shader_program) list"
    by (induction al) auto
  then show "k \<noteq> key \<Longrightarrow> ?thesis"
    by (simp add: put_shader_def)
qed

lemma render_gbuffers_unfold:
  assumes pack: "loaded_shaderpack r = Some pack"
    and terrain: "map_of (loaded_shaders pack) ''gbuffers_terrain'' = Some terrain_shader"
    and water: "map_of (loaded_shaders pack) ''gbuffers_water'' = Some water_shader"
  shows "render_gbuffers c r =
     (case render_shader c terrain_shader of
        (Inl e, t', cs) \<Rightarrow>
          (Inl e, r\<lparr>loaded_shaderpack := Some (put_shader ''gbuffers_terrain'' t' pack)\<rparr>, cs)
      | (Inr u, t', cs) \<Rightarrow>
          (outcome (render_shader c water_shader),
           r\<lparr>loaded_shaderpack :=
               Some (put_shader ''gbuffers_water'' (state_after (render_shader c water_shader))
                       (put_shader ''gbuffers_terrain'' t' pack))\<rparr>,
           cs @ calls (render_shader c water_shader)))"
proof -
  obtain res t' cs where run: "render_shader c terrain_shader = (res, t', cs)"
    by (cases "render_shader c terrain_shader")
  let ?r1 = "r\<lparr>loaded_shaderpack := Some (put_shader ''gbuffers_terrain'' t' pack)\<rparr>"
  have first: "with_shader ''gbuffers_terrain'' (render_shader c) r = (res, ?r1, cs)"
    by (simp add: with_shader_run [OF pack terrain] run)
  have pack1: "loaded_shaderpack ?r1 = Some (put_shader ''gbuffers_terrain'' t' pack)"
    by simp
  have water1: "map_of (loaded_shaders (put_shader ''gbuffers_terrain'' t' pack)) ''gbuffers_water''
                  = Some water_shader"
    by (simp add: map_of_put_shader_other water)
  note second = with_shader_run [OF pack1 water1, of "render_shader c"]
  show ?thesis
    unfolding render_gbuffers_def
    by (cases res) (simp_all only: run_sequence first second run, simp_all split: sum.splits)
qed

section \<open>Loading a shaderpack\<close>


lemma framebuffer_size_enable [simp]:
  "framebuffer_size (enable_color_attachment i b) = framebuffer_size b"
  by (simp add: enable_color_attachment_def)



section \<open>What a sequence of calls draws, binds and uploads\<close>

lemma drawn_append [simp]: "drawn (xs @ ys) = drawn xs @ drawn ys"
  by (simp add: drawn_def)

lemma drawn_Cons [simp]:
  "drawn (x # xs) = (case x of Draw g \<Rightarrow> [g] | _ \<Rightarrow> []) @ drawn xs"
  by (simp add: drawn_def)

lemma drawn_Nil [simp]: "drawn [] = []"
  by (simp add: drawn_def)

lemma drawn_texture_calls [simp]: "drawn (texture_calls c t u) = []"
  by (cases t) (simp_all split: sum.splits)

lemma drawn_uniform_upload_calls [simp]: "drawn (uniform_upload_calls c p m) = []"
  by (simp add: uniform_upload_calls_def split: option.splits)

lemma texture_bindings_append [simp]:
  "texture_bindings (xs @ ys) = texture_bindings xs @ texture_bindings ys"
  by (simp add: texture_bindings_def)

lemma texture_bindings_Cons [simp]:
  "texture_bindings (x # xs) =
     (case x of TextureBind t u \<Rightarrow> [(t, u)] | _ \<Rightarrow> []) @ texture_bindings xs"
  by (simp add: texture_bindings_def)

lemma texture_bindings_Nil [simp]: "texture_bindings [] = []"
  by (simp add: texture_bindings_def)

lemma texture_bindings_texture_calls:
  "b \<in> set (texture_bindings (texture_calls c t u)) \<Longrightarrow> snd b = u"
  by (cases t) (auto split: sum.splits)

lemma texture_bindings_uniform_upload_calls [simp]:
  "texture_bindings (uniform_upload_calls c p m) = []"
  by (simp add: uniform_upload_calls_def split: option.splits)

lemma matrix_uploads_append [simp]:
  "matrix_uploads (xs @ ys) = matrix_uploads xs @ matrix_uploads ys"
  by (simp add: matrix_uploads_def)

lemma matrix_uploads_Cons [simp]:
  "matrix_uploads (x # xs) =
     (case x of GlUniformMatrix4fv l m \<Rightarrow> [(l, m)] | _ \<Rightarrow> []) @ matrix_uploads xs"
  by (simp add: matrix_uploads_def)

lemma matrix_uploads_Nil [simp]: "matrix_uploads [] = []"
  by (simp add: matrix_uploads_def)

lemma matrix_uploads_texture_calls [simp]: "matrix_uploads (texture_calls c t u) = []"
  by (cases t) (simp_all split: sum.splits)

lemma matrix_uploads_uniform_upload_calls [simp]:
  "matrix_uploads (uniform_upload_calls c p m) = [(model_location c p, m)]"
  by (simp add: uniform_upload_calls_def model_location_def split: option.splits)

lemma drawn_gui_loop:
  "drawn (concat (map (\<lambda>g. texture_calls c (color_texture_name g) 0
                            @ [SetActive (geometry g), Draw (geometry g)]) gs))
   = map geometry gs"
  by (induction gs) simp_all

lemma matrix_uploads_gui_loop:
  "matrix_uploads (concat (map (\<lambda>g. texture_calls c (color_texture_name g) 0
                            @ [SetActive (geometry g), Draw (geometry g)]) gs)) = []"
  by (induction gs) simp_all

lemma texture_bindings_gui_loop:
  "b \<in> set (texture_bindings (concat (map (\<lambda>g. texture_calls c (color_texture_name g) 0
                            @ [SetActive (geometry g), Draw (geometry g)]) gs)))
   \<Longrightarrow> snd b = 0"
  by (induction gs) (auto dest: texture_bindings_texture_calls)

lemmas example_defs = texture_manager_holding_def example_program_def example_water_program_def example_gui_program_def
  example_entities_program_def example_terrain_state_def example_pack_def example_block_def
  example_block_with_unknown_normalmap_def
  example_pending_block_def example_untextured_block_def example_button_def example_panel_def
  example_collaborators_def example_collaborators_without_lightmap_def example_renderer_def

lemmas model_defs = render_frame_def render_gbuffers_def render_gui_def render_shader_def
  process_renderable_def draw_gui_renderable_def with_shader_def get_shader_def put_shader_def
  upload_model_matrix_def upload_gui_model_matrix_def get_uniform_location_def
  get_texture_def texture_bind_def get_meshes_for_shader_def bind_program_def get_name_def
  render_shadow_pass_def render_composite_passes_def render_final_pass_def
  update_gbuffer_ubos_def for_each_def bind_def issue_def returns_def throw_def

section \<open>The uniform location cache\<close>

lemma get_uniform_location_cached:
  "map_of (uniform_locations p) n = Some v \<Longrightarrow> get_uniform_location d n p = (Inr v, p, [])"
  by (simp add: get_uniform_location_def)

lemma get_uniform_location_first:
  "map_of (uniform_locations p) n = None \<Longrightarrow>
   get_uniform_location d n p =
     (Inr (d (gl_name p) n), p\<lparr>uniform_locations := (n, d (gl_name p) n) # uniform_locations p\<rparr>,
      [GlGetUniformLocation (gl_name p) n])"
  by (simp add: get_uniform_location_def Let_def)

lemma repeatedly_cached:
  "map_of (uniform_locations p) n = Some v \<Longrightarrow>
   get_uniform_location_repeatedly ds n p = (Inr (replicate (length ds) v), p, [])"
proof (induction ds)
  case Nil
  then show ?case by (simp add: returns_def)
next
  case (Cons d ds)
  have first: "get_uniform_location d n p = (Inr v, p, [])"
    using Cons.prems by (rule get_uniform_location_cached)
  show ?case
    using first Cons.IH [OF Cons.prems] by (simp add: bind_def returns_def)
qed

text \<open>
  C4. On a program that has not been asked for the uniform name yet, \<open>N \<ge> 1\<close> requests
  for it issue exactly one native lookup, made by the first request; all \<open>N\<close> requests
  return the value that lookup gave, also when later the driver would answer something
  else and also when the value is the not-found sentinel; no request fails.
\<close>

theorem get_uniform_location_one_native_lookup:
  assumes "map_of (uniform_locations p) n = None"
  shows "\<exists>p'. get_uniform_location_repeatedly (d # ds) n p =
           (Inr (replicate (Suc (length ds)) (d (gl_name p) n)), p',
            [GlGetUniformLocation (gl_name p) n])
         \<and> map_of (uniform_locations p') n = Some (d (gl_name p) n)"
proof -
  let ?v = "d (gl_name p) n"
  let ?p' = "p\<lparr>uniform_locations := (n, ?v) # uniform_locations p\<rparr>"
  have first: "get_uniform_location d n p = (Inr ?v, ?p', [GlGetUniformLocation (gl_name p) n])"
    using assms by (rule get_uniform_location_first)
  have cached: "map_of (uniform_locations ?p') n = Some ?v"
    by simp
  have rest: "get_uniform_location_repeatedly ds n ?p' = (Inr (replicate (length ds) ?v), ?p', [])"
    using cached by (rule repeatedly_cached)
  have "get_uniform_location_repeatedly (d # ds) n p =
          (Inr (replicate (Suc (length ds)) ?v), ?p', [GlGetUniformLocation (gl_name p) n])"
    using first rest by (simp add: bind_def returns_def)
  with cached show ?thesis by blast
qed

theorem get_uniform_location_one_native_lookup_witness:
  "map_of (uniform_locations example_program) ''gbufferModel'' = None
   \<and> outcome (get_uniform_location_repeatedly
        [\<lambda>_ _. uniform_not_found, \<lambda>_ _. 5, \<lambda>_ _. 6] ''gbufferModel'' example_program)
       = Inr [uniform_not_found, uniform_not_found, uniform_not_found]
   \<and> calls (get_uniform_location_repeatedly
        [\<lambda>_ _. uniform_not_found, \<lambda>_ _. 5, \<lambda>_ _. 6] ''gbufferModel'' example_program)
       = [GlGetUniformLocation 7 ''gbufferModel'']"
proof -
  have h: "map_of (uniform_locations example_program) ''gbufferModel'' = None"
    by (simp add: example_program_def)
  have g: "gl_name example_program = 7"
    by (simp add: example_program_def)
  show ?thesis
    using h g get_uniform_location_one_native_lookup [OF h,
        of "\<lambda>_ _. uniform_not_found" "[\<lambda>_ _. 5, \<lambda>_ _. 6]"]
    by (auto simp del: get_uniform_location_repeatedly.simps)
qed

section \<open>Copying, moving and destroying a shader program\<close>

text \<open>
  C3, as the code has it. Copy-construction duplicates every data member, the GPU handle,
  the attached shader objects and the uniform location cache included, so the copy holds
  the handle of its source. Move-construction hands every member to the new object and
  leaves the source with the null handle, and destroying the moved-from object releases
  nothing.
\<close>

theorem copy_duplicates_all_move_nulls_source:
  "copy_construct p = p
   \<and> gl_name (copy_construct p) = gl_name p
   \<and> fst (move_construct p) = p
   \<and> gl_name (snd (move_construct p)) = 0
   \<and> destructor (snd (move_construct p)) = []"
  by (simp add: copy_construct_def move_construct_def destructor_def)

text \<open>
  The claim as the spec words it fails on a linked program: the copy is not the
  descriptor-only copy, it holds the source's handle, and destroying it deletes the GPU
  program the source still refers to.
\<close>

theorem copy_is_descriptor_only_counterexample:
  "copy_construct example_program \<noteq> spec_descriptor_copy example_program
   \<and> gl_name (copy_construct example_program) = 7
   \<and> destructor (copy_construct example_program) = [GlDeleteProgram 7]"
  by (simp add: copy_construct_def spec_descriptor_copy_def destructor_def example_program_def)

section \<open>Reacting to a configuration change\<close>



section \<open>The gbuffer passes\<close>

text \<open>
  C2, as the code has it. With a shaderpack loaded that holds programs under the names
  \<open>gbuffers_terrain\<close> and \<open>gbuffers_water\<close>, a gbuffer step that completes opens exactly
  two passes, the first with the program stored under \<open>gbuffers_terrain\<close> and the second
  with the one under \<open>gbuffers_water\<close>, whatever the pass indices and whatever else the
  pack holds; each pass makes its program active and then asks the mesh store for the
  bucket keyed by the program's name.
\<close>

theorem render_gbuffers_terrain_then_water:
  assumes pack: "loaded_shaderpack r = Some pack"
    and terrain: "get_shader pack ''gbuffers_terrain'' = Inr terrain_shader"
    and water: "get_shader pack ''gbuffers_water'' = Inr water_shader"
    and completes: "outcome (render_gbuffers c r) = Inr ()"
  shows "pass_calls (calls (render_gbuffers c r)) =
           [GlUseProgram (gl_name terrain_shader), GetMeshesForShader (name terrain_shader),
            GlUseProgram (gl_name water_shader), GetMeshesForShader (name water_shader)]"
proof -
  have t: "map_of (loaded_shaders pack) ''gbuffers_terrain'' = Some terrain_shader"
    using terrain by (simp add: get_shader_def split: option.splits)
  have w: "map_of (loaded_shaders pack) ''gbuffers_water'' = Some water_shader"
    using water by (simp add: get_shader_def split: option.splits)
  obtain res t' cs where run: "render_shader c terrain_shader = (res, t', cs)"
    by (cases "render_shader c terrain_shader")
  have ok: "res = Inr ()"
    using completes by (cases res) (simp_all add: render_gbuffers_unfold [OF pack t w] run)
  have cs: "pass_calls cs = [GlUseProgram (gl_name terrain_shader), GetMeshesForShader (name terrain_shader)]"
    using pass_calls_render_shader [of c terrain_shader] by (simp add: run)
  show ?thesis
    by (simp add: render_gbuffers_unfold [OF pack t w] run ok cs pass_calls_render_shader)
qed

theorem render_gbuffers_terrain_then_water_witness:
  "loaded_shaderpack example_renderer = Some example_pack
   \<and> get_shader example_pack ''gbuffers_terrain'' = Inr example_program
   \<and> get_shader example_pack ''gbuffers_water'' = Inr example_water_program
   \<and> outcome (render_gbuffers example_collaborators example_renderer) = Inr ()
   \<and> pass_calls (calls (render_gbuffers example_collaborators example_renderer)) =
       [GlUseProgram 7, GetMeshesForShader ''gbuffers_terrain'',
        GlUseProgram 8, GetMeshesForShader ''gbuffers_water'']"
proof -
  have h1: "loaded_shaderpack example_renderer = Some example_pack"
    by (simp add: example_renderer_def)
  have h2: "get_shader example_pack ''gbuffers_terrain'' = Inr example_program"
    by (simp add: get_shader_def example_pack_def)
  have h3: "get_shader example_pack ''gbuffers_water'' = Inr example_water_program"
    by (simp add: get_shader_def example_pack_def)
  have h4: "outcome (render_gbuffers example_collaborators example_renderer) = Inr ()"
    by (simp add: model_defs example_defs Let_def)
  show ?thesis
    using h1 h2 h3 h4 render_gbuffers_terrain_then_water [OF h1 h2 h3 h4]
    by (simp add: example_program_def example_water_program_def)
qed

text \<open>
  The claim as the spec words it fails on a pack whose water pass has the smaller pass
  index, whose programs have filters that differ from their names, and which holds a third
  gbuffer pass: the code opens terrain, then water, each with the bucket of the program's
  name, and never opens the third.
\<close>

theorem gbuffer_passes_by_pass_index_counterexample:
  "pass_calls (calls (render_gbuffers example_collaborators example_renderer)) =
     [GlUseProgram 7, GetMeshesForShader ''gbuffers_terrain'',
      GlUseProgram 8, GetMeshesForShader ''gbuffers_water'']
   \<and> spec_gbuffer_pass_calls example_pack =
     [GlUseProgram 8, GetMeshesForShader ''geometry_type::water'',
      GlUseProgram 7, GetMeshesForShader ''geometry_type::block'',
      GlUseProgram 10, GetMeshesForShader ''geometry_type::entity'']
   \<and> pass_calls (calls (render_gbuffers example_collaborators example_renderer))
       \<noteq> spec_gbuffer_pass_calls example_pack"
proof -
  have code: "pass_calls (calls (render_gbuffers example_collaborators example_renderer)) =
     [GlUseProgram 7, GetMeshesForShader ''gbuffers_terrain'',
      GlUseProgram 8, GetMeshesForShader ''gbuffers_water'']"
    by (simp add: model_defs example_defs pass_calls_def Let_def)
  have spec: "spec_gbuffer_pass_calls example_pack =
     [GlUseProgram 8, GetMeshesForShader ''geometry_type::water'',
      GlUseProgram 7, GetMeshesForShader ''geometry_type::block'',
      GlUseProgram 10, GetMeshesForShader ''geometry_type::entity'']"
    by (simp add: spec_gbuffer_pass_calls_def spec_gbuffer_passes_def is_gbuffer_pass_def
        get_shader_def example_defs)
  show ?thesis
    unfolding code spec by simp
qed

section \<open>The frame\<close>

text \<open>
  C7, as the code has it. With a shaderpack loaded, \<open>render_frame\<close> runs its steps in
  one fixed order: recalculate the frustum, upload new geometry, the shadow pass, clear
  colour and depth, send the camera's projection and view matrices as the per-frame
  uniforms, the gbuffer passes, the composite passes, the final pass, the GUI pass,
  \<open>end_frame\<close>. A frame in which the gbuffer passes and the GUI pass complete executes
  every step. An exception in the gbuffer passes ends the frame there, without the
  composite passes, the final pass, the GUI pass and \<open>end_frame\<close>; an exception in the
  GUI pass ends it there, without \<open>end_frame\<close>.
\<close>

theorem render_frame_steps_in_order:
  assumes "loaded_shaderpack r = Some pack"
  shows "render_frame c r =
     (case render_gbuffers c r of
        (Inl e, r1, gbuffer_calls) \<Rightarrow>
          (Inl e, r1,
           [RecalculateFrustum, UploadNewGeometry,
            LogTrace ''Rendering shadow pass'',
            GlClear {GL_COLOR_BUFFER_BIT, GL_DEPTH_BUFFER_BIT},
            SendData \<lparr>gbufferProjection = projection_matrix (player_camera r),
                      gbufferModelView = view_matrix (player_camera r)\<rparr>]
           @ gbuffer_calls)
      | (Inr u, r1, gbuffer_calls) \<Rightarrow>
          (case render_gui c r1 of
             (Inl e, r2, gui_calls) \<Rightarrow>
               (Inl e, r2,
                [RecalculateFrustum, UploadNewGeometry,
                 LogTrace ''Rendering shadow pass'',
                 GlClear {GL_COLOR_BUFFER_BIT, GL_DEPTH_BUFFER_BIT},
                 SendData \<lparr>gbufferProjection = projection_matrix (player_camera r),
                           gbufferModelView = view_matrix (player_camera r)\<rparr>]
                @ gbuffer_calls
                @ [LogTrace ''Rendering composite passes'', LogTrace ''Rendering final pass'']
                @ gui_calls)
           | (Inr u, r2, gui_calls) \<Rightarrow>
               (Inr (), r2,
                [RecalculateFrustum, UploadNewGeometry,
                 LogTrace ''Rendering shadow pass'',
                 GlClear {GL_COLOR_BUFFER_BIT, GL_DEPTH_BUFFER_BIT},
                 SendData \<lparr>gbufferProjection = projection_matrix (player_camera r),
                           gbufferModelView = view_matrix (player_camera r)\<rparr>]
                @ gbuffer_calls
                @ [LogTrace ''Rendering composite passes'', LogTrace ''Rendering final pass'']
                @ gui_calls @ [EndFrame])))"
proof -
  have i: "issue x r = (Inr (), r, [x])" for x and r :: nova_renderer
    by (simp add: issue_def)
  have n: "render_shadow_pass r = (Inr (), r, [LogTrace ''Rendering shadow pass''])"
    "render_composite_passes r = (Inr (), r, [LogTrace ''Rendering composite passes''])"
    "render_final_pass r = (Inr (), r, [LogTrace ''Rendering final pass''])" for r
    by (simp_all add: render_shadow_pass_def render_composite_passes_def render_final_pass_def
        issue_def)
  have u: "update_gbuffer_ubos r =
     (Inr (), r, [SendData \<lparr>gbufferProjection = projection_matrix (player_camera r),
                      gbufferModelView = view_matrix (player_camera r)\<rparr>])"
    by (simp add: update_gbuffer_ubos_def issue_def)
  obtain res r1 g where gb: "render_gbuffers c r = (res, r1, g)"
    by (cases "render_gbuffers c r")
  obtain res2 r2 gu where gui: "render_gui c r1 = (res2, r2, gu)"
    by (cases "render_gui c r1")
  show ?thesis
    unfolding render_frame_def
    by (cases res; cases res2) (simp_all only: run_sequence i n u gb gui, simp_all)
qed

theorem render_frame_steps_in_order_witness:
  "loaded_shaderpack example_renderer = Some example_pack
   \<and> outcome (render_frame example_collaborators example_renderer) = Inr ()
   \<and> calls (render_frame example_collaborators example_renderer) =
       [RecalculateFrustum, UploadNewGeometry,
        LogTrace ''Rendering shadow pass'',
        GlClear {GL_COLOR_BUFFER_BIT, GL_DEPTH_BUFFER_BIT},
        SendData \<lparr>gbufferProjection = mat4 (float_of 1), gbufferModelView = mat4 (float_of 1)\<rparr>]
       @ calls (render_gbuffers example_collaborators example_renderer)
       @ [LogTrace ''Rendering composite passes'', LogTrace ''Rendering final pass'']
       @ calls (render_gui example_collaborators
                  (state_after (render_gbuffers example_collaborators example_renderer)))
       @ [EndFrame]"
proof -
  have h: "loaded_shaderpack example_renderer = Some example_pack"
    by (simp add: example_renderer_def)
  have gb: "outcome (render_gbuffers example_collaborators example_renderer) = Inr ()"
    by (simp add: model_defs example_defs Let_def)
  have gui: "outcome (render_gui example_collaborators
                  (state_after (render_gbuffers example_collaborators example_renderer))) = Inr ()"
    by (simp add: model_defs example_defs Let_def)
  have cam: "projection_matrix (player_camera example_renderer) = mat4 (float_of 1)"
    "view_matrix (player_camera example_renderer) = mat4 (float_of 1)"
    by (simp_all add: example_renderer_def)
  obtain r1 g where run1: "render_gbuffers example_collaborators example_renderer = (Inr (), r1, g)"
    using gb by (cases "render_gbuffers example_collaborators example_renderer") simp
  obtain r2 gu where run2: "render_gui example_collaborators r1 = (Inr (), r2, gu)"
    using gui by (cases "render_gui example_collaborators r1") (simp add: run1)
  show ?thesis
    using h render_frame_steps_in_order [OF h, of example_collaborators]
    by (simp add: run1 run2 cam)
qed

text \<open>
  The claim as the spec words it fails on a frame whose texture manager has no
  \<open>lightmap\<close>: the first terrain renderable with data fails at that lookup, and the frame
  ends there, with no composite or final pass, no GUI pass and no \<open>end_frame\<close>.
\<close>

theorem render_frame_no_step_skipped_counterexample:
  "render_frame
     example_collaborators_without_lightmap
     example_renderer =
   (Inl (texture_not_found ''lightmap''), example_renderer,
    [RecalculateFrustum, UploadNewGeometry,
     LogTrace ''Rendering shadow pass'',
     GlClear {GL_COLOR_BUFFER_BIT, GL_DEPTH_BUFFER_BIT},
     SendData \<lparr>gbufferProjection = mat4 (float_of 1), gbufferModelView = mat4 (float_of 1)\<rparr>,
     GlUseProgram 7, GetMeshesForShader ''gbuffers_terrain'',
     GetTexture ''terrain'', TextureBind 1 0,
     GetTexture ''terrain_n'', TextureBind 2 1,
     GetTexture ''lightmap''])
   \<and> EndFrame \<notin> set (calls (render_frame
         example_collaborators_without_lightmap
         example_renderer))
   \<and> LogTrace ''Rendering final pass'' \<notin> set (calls (render_frame
         example_collaborators_without_lightmap
         example_renderer))"
  by (simp add: model_defs example_defs Let_def)

section \<open>The skip policy of a gbuffer-style pass\<close>

text \<open>
  C5. In \<open>render_shader\<close>, a renderable whose geometry reports no uploaded data is passed
  over: processing it returns normally, makes no call and leaves the program as it was.
  Taking every such renderable out of the buckets of the mesh store changes nothing in what
  \<open>render_shader\<close> does: the same outcome, the same program afterwards and the same
  calls in the same order, so the draws and texture bindings of the renderables that
  follow a skipped one are what they are without it.
\<close>

theorem render_shader_skips_renderables_without_data:
  "process_renderable c (geom\<lparr>geometry := (geometry geom)\<lparr>has_data := False\<rparr>\<rparr>) p = (Inr (), p, [])
   \<and> for_each (before @ [geom\<lparr>geometry := (geometry geom)\<lparr>has_data := False\<rparr>\<rparr>] @ after)
        (process_renderable c) p
     = for_each (before @ after) (process_renderable c) p
   \<and> render_shader (c\<lparr>meshes := \<lambda>n. filter (\<lambda>g. has_data (geometry g)) (meshes c n)\<rparr>) p
     = render_shader c p"
proof -
  let ?skipped = "geom\<lparr>geometry := (geometry geom)\<lparr>has_data := False\<rparr>\<rparr>"
  have one: "process_renderable c ?skipped p = (Inr (), p, [])"
    by (simp add: process_renderable_no_data returns_def)
  have "for_each (filter (\<lambda>g. has_data (geometry g)) (before @ [?skipped] @ after))
          (process_renderable c)
        = for_each (filter (\<lambda>g. has_data (geometry g)) (before @ after)) (process_renderable c)"
    by simp
  then have loop: "for_each (before @ [?skipped] @ after) (process_renderable c)
                   = for_each (before @ after) (process_renderable c)"
    by (simp only: for_each_skip_no_data)
  have pass: "render_shader (c\<lparr>meshes := \<lambda>n. filter (\<lambda>g. has_data (geometry g)) (meshes c n)\<rparr>) p
              = render_shader c p"
    by (simp add: render_shader_def get_meshes_for_shader_def for_each_skip_no_data
        process_renderable_meshes_irrelevant bind_assoc bind_returns_left)
  from one loop pass show ?thesis by simp
qed

section \<open>What is bound before a renderable is drawn\<close>

text \<open>
  C6, as the code has it. For a renderable with uploaded data in a gbuffer-style pass the
  texture manager is asked, in this order, for the colour texture (when the name is not
  empty), the normal map and the data texture (when the renderable has one) and the
  texture \<open>lightmap\<close>, and each texture it returns is bound at once, at binding points
  0, 1, 2 and 3; a texture the renderable does not name causes no call and no failure.
  When all these lookups return, the model matrix, the translation by the renderable's
  position, is uploaded to the uniform \<open>gbufferModel\<close>, and then the geometry is made
  active and drawn. When one of the lookups throws, of the colour texture, the normal map
  or the data texture as of \<open>lightmap\<close>, processing the renderable ends with that error
  at that lookup: the textures before it are bound, nothing is uploaded and nothing drawn.
\<close>

theorem process_renderable_binds_then_draws_or_fails:
  assumes "has_data (geometry geom)"
  shows "((color_texture geom \<noteq> [] \<longrightarrow> (\<exists>t. texture_manager c (color_texture geom) = Inr t))
          \<and> (\<forall>n. normalmap geom = Some n \<longrightarrow> (\<exists>t. texture_manager c n = Inr t))
          \<and> (\<forall>n. data_texture geom = Some n \<longrightarrow> (\<exists>t. texture_manager c n = Inr t))
          \<and> texture_manager c ''lightmap'' = Inr lightmap
          \<longrightarrow> process_renderable c geom p =
                (Inr (), remember_location c p,
                 texture_calls c (color_texture_name geom) 0
                 @ texture_calls c (normalmap geom) 1
                 @ texture_calls c (data_texture geom) 2
                 @ [GetTexture ''lightmap'', TextureBind lightmap 3]
                 @ uniform_upload_calls c p (translate (mat4 (float_of 1)) (position geom))
                 @ [SetActive (geometry geom), Draw (geometry geom)]))
       \<and> (color_texture geom \<noteq> [] \<and> texture_manager c (color_texture geom) = Inl e
          \<longrightarrow> process_renderable c geom p = (Inl e, p, [GetTexture (color_texture geom)]))
       \<and> ((color_texture geom \<noteq> [] \<longrightarrow> (\<exists>t. texture_manager c (color_texture geom) = Inr t))
          \<and> normalmap geom = Some n \<and> texture_manager c n = Inl e
          \<longrightarrow> process_renderable c geom p =
                (Inl e, p, texture_calls c (color_texture_name geom) 0 @ [GetTexture n]))
       \<and> ((color_texture geom \<noteq> [] \<longrightarrow> (\<exists>t. texture_manager c (color_texture geom) = Inr t))
          \<and> (\<forall>n. normalmap geom = Some n \<longrightarrow> (\<exists>t. texture_manager c n = Inr t))
          \<and> data_texture geom = Some n \<and> texture_manager c n = Inl e
          \<longrightarrow> process_renderable c geom p =
                (Inl e, p,
                 texture_calls c (color_texture_name geom) 0
                 @ texture_calls c (normalmap geom) 1
                 @ [GetTexture n]))
       \<and> ((color_texture geom \<noteq> [] \<longrightarrow> (\<exists>t. texture_manager c (color_texture geom) = Inr t))
          \<and> (\<forall>n. normalmap geom = Some n \<longrightarrow> (\<exists>t. texture_manager c n = Inr t))
          \<and> (\<forall>n. data_texture geom = Some n \<longrightarrow> (\<exists>t. texture_manager c n = Inr t))
          \<and> texture_manager c ''lightmap'' = Inl e
          \<longrightarrow> process_renderable c geom p =
                (Inl e, p,
                 texture_calls c (color_texture_name geom) 0
                 @ texture_calls c (normalmap geom) 1
                 @ texture_calls c (data_texture geom) 2
                 @ [GetTexture ''lightmap'']))"
proof (intro conjI impI)
  assume "(color_texture geom \<noteq> [] \<longrightarrow> (\<exists>t. texture_manager c (color_texture geom) = Inr t))
          \<and> (\<forall>n. normalmap geom = Some n \<longrightarrow> (\<exists>t. texture_manager c n = Inr t))
          \<and> (\<forall>n. data_texture geom = Some n \<longrightarrow> (\<exists>t. texture_manager c n = Inr t))
          \<and> texture_manager c ''lightmap'' = Inr lightmap"
  then show "process_renderable c geom p =
                (Inr (), remember_location c p,
                 texture_calls c (color_texture_name geom) 0
                 @ texture_calls c (normalmap geom) 1
                 @ texture_calls c (data_texture geom) 2
                 @ [GetTexture ''lightmap'', TextureBind lightmap 3]
                 @ uniform_upload_calls c p (translate (mat4 (float_of 1)) (position geom))
                 @ [SetActive (geometry geom), Draw (geometry geom)])"
    using process_renderable_run(1) [OF assms, of c lightmap p] by blast
next
  assume "(color_texture geom \<noteq> [] \<longrightarrow> (\<exists>t. texture_manager c (color_texture geom) = Inr t))
          \<and> (\<forall>n. normalmap geom = Some n \<longrightarrow> (\<exists>t. texture_manager c n = Inr t))
          \<and> (\<forall>n. data_texture geom = Some n \<longrightarrow> (\<exists>t. texture_manager c n = Inr t))
          \<and> texture_manager c ''lightmap'' = Inl e"
  then show "process_renderable c geom p =
                (Inl e, p,
                 texture_calls c (color_texture_name geom) 0
                 @ texture_calls c (normalmap geom) 1
                 @ texture_calls c (data_texture geom) 2
                 @ [GetTexture ''lightmap''])"
    using process_renderable_run(2) [OF assms, of c e p] by blast
next
  assume h: "color_texture geom \<noteq> [] \<and> texture_manager c (color_texture geom) = Inl e"
  note s1 = color_texture_step_fails [OF conjunct1 [OF h] conjunct2 [OF h], of p]
  show "process_renderable c geom p = (Inl e, p, [GetTexture (color_texture geom)])"
    unfolding process_renderable_def
    by (simp only: assms if_True run_sequence s1)
next
  assume h: "(color_texture geom \<noteq> [] \<longrightarrow> (\<exists>t. texture_manager c (color_texture geom) = Inr t))
          \<and> normalmap geom = Some n \<and> texture_manager c n = Inl e"
  then have color: "color_texture geom \<noteq> [] \<longrightarrow> (\<exists>t. texture_manager c (color_texture geom) = Inr t)"
    and named: "normalmap geom = Some n" and throws: "texture_manager c n = Inl e"
    by simp_all
  note s1 = color_texture_step [OF color, of p]
  note s2 = optional_texture_step_fails [OF named throws, of 1 p]
  show "process_renderable c geom p =
                (Inl e, p, texture_calls c (color_texture_name geom) 0 @ [GetTexture n])"
    unfolding process_renderable_def
    by (simp only: assms if_True run_sequence s1 s2)
next
  assume h: "(color_texture geom \<noteq> [] \<longrightarrow> (\<exists>t. texture_manager c (color_texture geom) = Inr t))
          \<and> (\<forall>n. normalmap geom = Some n \<longrightarrow> (\<exists>t. texture_manager c n = Inr t))
          \<and> data_texture geom = Some n \<and> texture_manager c n = Inl e"
  then have color: "color_texture geom \<noteq> [] \<longrightarrow> (\<exists>t. texture_manager c (color_texture geom) = Inr t)"
    and normal: "\<forall>n. normalmap geom = Some n \<longrightarrow> (\<exists>t. texture_manager c n = Inr t)"
    and named: "data_texture geom = Some n" and throws: "texture_manager c n = Inl e"
    by simp_all
  note s1 = color_texture_step [OF color, of p]
  note s2 = optional_texture_step [OF normal, of 1 p]
  note s3 = optional_texture_step_fails [OF named throws, of 2 p]
  show "process_renderable c geom p =
                (Inl e, p,
                 texture_calls c (color_texture_name geom) 0
                 @ texture_calls c (normalmap geom) 1
                 @ [GetTexture n])"
    unfolding process_renderable_def
    by (simp only: assms if_True run_sequence s1 s2 s3)
qed

theorem process_renderable_binds_then_draws_or_fails_witness:
  "has_data (geometry example_block)
   \<and> process_renderable example_collaborators example_block example_program =
     (Inr (),
      example_program\<lparr>uniform_locations := [(''gbufferModel'', 4)]\<rparr>,
      [GetTexture ''terrain'', TextureBind 1 0,
       GetTexture ''terrain_n'', TextureBind 2 1,
       GetTexture ''lightmap'', TextureBind 4 3,
       GlGetUniformLocation 7 ''gbufferModel'',
       GlUniformMatrix4fv 4
         (translate (mat4 (float_of 1)) (vec3 (float_of 16) (float_of 64) (float_of 0))),
       SetActive \<lparr>vertex_array = 21, has_data = True\<rparr>,
       Draw \<lparr>vertex_array = 21, has_data = True\<rparr>])
   \<and> process_renderable example_collaborators_without_lightmap example_block example_program =
     (Inl (texture_not_found ''lightmap''), example_program,
      [GetTexture ''terrain'', TextureBind 1 0,
       GetTexture ''terrain_n'', TextureBind 2 1,
       GetTexture ''lightmap''])
   \<and> process_renderable example_collaborators example_block_with_unknown_normalmap
       example_program =
     (Inl (texture_not_found ''absent_n''), example_program,
      [GetTexture ''terrain'', TextureBind 1 0, GetTexture ''absent_n''])"
proof -
  have data: "has_data (geometry example_block)"
    by (simp add: example_block_def)
  have data': "has_data (geometry example_block_with_unknown_normalmap)"
    by (simp add: example_block_with_unknown_normalmap_def example_block_def)
  note all = process_renderable_binds_then_draws_or_fails
  have found:
    "process_renderable example_collaborators example_block example_program =
       (Inr (), remember_location example_collaborators example_program,
        texture_calls example_collaborators (color_texture_name example_block) 0
        @ texture_calls example_collaborators (normalmap example_block) 1
        @ texture_calls example_collaborators (data_texture example_block) 2
        @ [GetTexture ''lightmap'', TextureBind 4 3]
        @ uniform_upload_calls example_collaborators example_program
            (translate (mat4 (float_of 1)) (position example_block))
        @ [SetActive (geometry example_block), Draw (geometry example_block)])"
    using all [OF data, where c = example_collaborators and p = example_program
                 and lightmap = 4]
    by (simp add: example_block_def example_collaborators_def texture_manager_holding_def)
  have missing:
    "process_renderable example_collaborators_without_lightmap example_block example_program =
       (Inl (texture_not_found ''lightmap''), example_program,
        texture_calls example_collaborators_without_lightmap (color_texture_name example_block) 0
        @ texture_calls example_collaborators_without_lightmap (normalmap example_block) 1
        @ texture_calls example_collaborators_without_lightmap (data_texture example_block) 2
        @ [GetTexture ''lightmap''])"
    using all [OF data, where c = example_collaborators_without_lightmap
                 and p = example_program and e = "texture_not_found ''lightmap''"]
    by (simp add: example_block_def example_collaborators_def texture_manager_holding_def
        example_collaborators_without_lightmap_def)
  have unknown:
    "process_renderable example_collaborators example_block_with_unknown_normalmap
       example_program =
       (Inl (texture_not_found ''absent_n''), example_program,
        texture_calls example_collaborators
          (color_texture_name example_block_with_unknown_normalmap) 0
        @ [GetTexture ''absent_n''])"
    using all [OF data', where c = example_collaborators and p = example_program
                 and e = "texture_not_found ''absent_n''" and n = "''absent_n''"]
    by (simp add: example_block_with_unknown_normalmap_def example_block_def
        example_collaborators_def texture_manager_holding_def)
  show ?thesis
    unfolding found missing unknown
    by (simp add: example_block_def example_collaborators_def example_program_def
        color_texture_name_def uniform_upload_calls_def remember_location_def
        texture_manager_holding_def example_collaborators_without_lightmap_def
        example_block_with_unknown_normalmap_def)
qed

text \<open>
  The claim as the spec words it fails on a renderable that names a normal map the texture
  manager does not hold: the lookup of the optional texture throws, nothing is drawn, and
  the error leaves \<open>render_shader\<close> and the frame.
\<close>

theorem missing_optional_texture_counterexample:
  "process_renderable example_collaborators example_block_with_unknown_normalmap example_program =
     (Inl (texture_not_found ''absent_n''), example_program,
      [GetTexture ''terrain'', TextureBind 1 0, GetTexture ''absent_n''])
   \<and> outcome (render_frame
        (example_collaborators\<lparr>meshes := \<lambda>n. [example_block_with_unknown_normalmap]\<rparr>)
        example_renderer) = Inl (texture_not_found ''absent_n'')
   \<and> drawn (calls (render_frame
        (example_collaborators\<lparr>meshes := \<lambda>n. [example_block_with_unknown_normalmap]\<rparr>)
        example_renderer)) = []"
  by (simp add: model_defs example_defs Let_def)

section \<open>A renderable without a colour texture\<close>

text \<open>
  C10. A renderable whose colour texture name is the empty string is still drawn, in the
  GUI pass and in a gbuffer-style pass: the texture manager is not asked for a colour
  texture and nothing is bound at binding point 0, so what was bound there stays, and no
  failure comes from the missing name. In the GUI pass the renderable's calls are making
  its geometry active and drawing it; in a gbuffer-style pass (for a renderable with
  uploaded data whose other named textures, and \<open>lightmap\<close>, the texture manager
  holds) they are the bindings at points 1, 2 and 3, the matrix upload and the draw.
\<close>

theorem empty_color_texture_still_drawn:
  assumes "color_texture geom = []"
  shows "draw_gui_renderable c geom p = (Inr (), p, [SetActive (geometry geom), Draw (geometry geom)])
       \<and> (has_data (geometry geom)
            \<and> (\<forall>n. normalmap geom = Some n \<longrightarrow> (\<exists>t. texture_manager c n = Inr t))
            \<and> (\<forall>n. data_texture geom = Some n \<longrightarrow> (\<exists>t. texture_manager c n = Inr t))
            \<and> texture_manager c ''lightmap'' = Inr lightmap
          \<longrightarrow> process_renderable c geom p =
                (Inr (), remember_location c p,
                 texture_calls c (normalmap geom) 1
                 @ texture_calls c (data_texture geom) 2
                 @ [GetTexture ''lightmap'', TextureBind lightmap 3]
                 @ uniform_upload_calls c p (translate (mat4 (float_of 1)) (position geom))
                 @ [SetActive (geometry geom), Draw (geometry geom)])
              \<and> (\<forall>b \<in> set (texture_bindings (calls (process_renderable c geom p))). snd b \<noteq> 0)
              \<and> drawn (calls (process_renderable c geom p)) = [geometry geom])"
proof (intro conjI impI)
  have color: "color_texture geom \<noteq> [] \<longrightarrow> (\<exists>t. texture_manager c (color_texture geom) = Inr t)"
    using assms by simp
  have none: "color_texture_name geom = None"
    using assms by (simp add: color_texture_name_def)
  show "draw_gui_renderable c geom p = (Inr (), p, [SetActive (geometry geom), Draw (geometry geom)])"
    using draw_gui_renderable_run [OF color, of p] by (simp add: none)
  assume rest: "has_data (geometry geom)
            \<and> (\<forall>n. normalmap geom = Some n \<longrightarrow> (\<exists>t. texture_manager c n = Inr t))
            \<and> (\<forall>n. data_texture geom = Some n \<longrightarrow> (\<exists>t. texture_manager c n = Inr t))
            \<and> texture_manager c ''lightmap'' = Inr lightmap"
  then have run: "process_renderable c geom p =
                (Inr (), remember_location c p,
                 texture_calls c (normalmap geom) 1
                 @ texture_calls c (data_texture geom) 2
                 @ [GetTexture ''lightmap'', TextureBind lightmap 3]
                 @ uniform_upload_calls c p (translate (mat4 (float_of 1)) (position geom))
                 @ [SetActive (geometry geom), Draw (geometry geom)])"
    using color
      process_renderable_run(1) [where geom = geom and c = c and lightmap = lightmap and p = p]
    by (simp add: none)
  then show "process_renderable c geom p =
                (Inr (), remember_location c p,
                 texture_calls c (normalmap geom) 1
                 @ texture_calls c (data_texture geom) 2
                 @ [GetTexture ''lightmap'', TextureBind lightmap 3]
                 @ uniform_upload_calls c p (translate (mat4 (float_of 1)) (position geom))
                 @ [SetActive (geometry geom), Draw (geometry geom)])" .
  show "\<forall>b \<in> set (texture_bindings (calls (process_renderable c geom p))). snd b \<noteq> 0"
    unfolding run by (auto dest: texture_bindings_texture_calls)
  show "drawn (calls (process_renderable c geom p)) = [geometry geom]"
    unfolding run by simp
qed

theorem empty_color_texture_still_drawn_witness:
  "color_texture example_untextured_block = []
   \<and> draw_gui_renderable example_collaborators example_untextured_block example_gui_program
       = (Inr (), example_gui_program,
          [SetActive \<lparr>vertex_array = 23, has_data = True\<rparr>,
           Draw \<lparr>vertex_array = 23, has_data = True\<rparr>])
   \<and> calls (process_renderable example_collaborators example_untextured_block example_program)
       = [GetTexture ''terrain_s'', TextureBind 3 2,
          GetTexture ''lightmap'', TextureBind 4 3,
          GlGetUniformLocation 7 ''gbufferModel'',
          GlUniformMatrix4fv 4
            (translate (mat4 (float_of 1)) (vec3 (float_of 48) (float_of 64) (float_of 0))),
          SetActive \<lparr>vertex_array = 23, has_data = True\<rparr>,
          Draw \<lparr>vertex_array = 23, has_data = True\<rparr>]"
proof -
  have h: "color_texture example_untextured_block = []"
    by (simp add: example_untextured_block_def)
  show ?thesis
    using h empty_color_texture_still_drawn
      [OF h, where c = example_collaborators and p = example_gui_program and lightmap = 4]
      empty_color_texture_still_drawn
      [OF h, where c = example_collaborators and p = example_program and lightmap = 4]
    by (simp add: example_untextured_block_def example_collaborators_def example_program_def
        uniform_upload_calls_def texture_manager_holding_def)
qed

section \<open>The GUI pass\<close>

text \<open>
  C8. With a shaderpack loaded that holds a program under the name \<open>gui\<close>, and the
  texture manager holding every colour texture the GUI renderables name, the GUI pass
  completes and makes these calls, in this order: it clears the depth buffer and only the
  depth buffer; it makes the \<open>gui\<close> program active; it uploads to the uniform
  \<open>gbufferModel\<close> the viewport transform built from the configured scale factor, view
  width and view height; it asks the mesh store for the bucket \<open>gui\<close>; and for every
  renderable of the bucket, in order, it binds the colour texture at binding point 0
  (when the name is not empty), makes the geometry active and draws it. No call of the
  pass clears the colour buffer.
\<close>

theorem render_gui_clears_depth_binds_gui_draws_all:
  assumes "loaded_shaderpack r = Some pack"
    and "get_shader pack ''gui'' = Inr gui_shader"
    and "\<forall>g \<in> set (meshes c ''gui''). color_texture g \<noteq> [] \<longrightarrow>
           (\<exists>t. texture_manager c (color_texture g) = Inr t)"
  shows "outcome (render_gui c r) = Inr ()
       \<and> calls (render_gui c r) =
            [GlClear {GL_DEPTH_BUFFER_BIT}, GlUseProgram (gl_name gui_shader)]
            @ uniform_upload_calls c gui_shader (gui_model_matrix (options c))
            @ [GetMeshesForShader ''gui'']
            @ concat (map (\<lambda>g. texture_calls c (color_texture_name g) 0
                                @ [SetActive (geometry g), Draw (geometry g)]) (meshes c ''gui''))
       \<and> (\<forall>mask. GlClear mask \<in> set (calls (render_gui c r)) \<longrightarrow> GL_COLOR_BUFFER_BIT \<notin> mask)"
proof -
  have gui: "map_of (loaded_shaders pack) ''gui'' = Some gui_shader"
    using assms(2) by (simp add: get_shader_def split: option.splits)
  note run = render_gui_run [OF assms(1) gui assms(3)]
  have no_clear: "GlClear mask \<notin> set (texture_calls c t u)" for mask t u
    by (cases t) (simp_all split: sum.splits)
  have no_clear_upload: "GlClear mask \<notin> set (uniform_upload_calls c gui_shader m)" for mask m
    by (simp add: uniform_upload_calls_def split: option.splits)
  show ?thesis
    unfolding run by (auto simp: no_clear no_clear_upload)
qed

theorem render_gui_clears_depth_binds_gui_draws_all_witness:
  "loaded_shaderpack example_renderer = Some example_pack
   \<and> get_shader example_pack ''gui'' = Inr example_gui_program
   \<and> calls (render_gui example_collaborators example_renderer) =
       [GlClear {GL_DEPTH_BUFFER_BIT}, GlUseProgram 9,
        GlUniformMatrix4fv 4
          (scale (scale (scale (translate (mat4 (float_of 1))
                                  (vec3 (float_of (-1)) (float_of 1) (float_of 0)))
                           (vec3 (float_of 2) (float_of 2) (float_of 1)))
                    (vec3 (one_over (float_of 1920)) (one_over (float_of 1080)) (float_of 1)))
             (vec3 (float_of 1) (float_of (-1)) (float_of 1))),
        GetMeshesForShader ''gui'',
        GetTexture ''gui'', TextureBind 5 0,
        SetActive \<lparr>vertex_array = 31, has_data = False\<rparr>,
        Draw \<lparr>vertex_array = 31, has_data = False\<rparr>,
        SetActive \<lparr>vertex_array = 32, has_data = True\<rparr>,
        Draw \<lparr>vertex_array = 32, has_data = True\<rparr>]"
proof -
  have h1: "loaded_shaderpack example_renderer = Some example_pack"
    by (simp add: example_renderer_def)
  have h2: "get_shader example_pack ''gui'' = Inr example_gui_program"
    by (simp add: get_shader_def example_pack_def)
  have h3: "\<forall>g \<in> set (meshes example_collaborators ''gui''). color_texture g \<noteq> [] \<longrightarrow>
           (\<exists>t. texture_manager example_collaborators (color_texture g) = Inr t)"
    by (simp add: example_collaborators_def example_button_def example_panel_def
        texture_manager_holding_def)
  show ?thesis
    using h1 h2 render_gui_clears_depth_binds_gui_draws_all [OF h1 h2 h3]
    by (simp add: example_collaborators_def example_button_def example_panel_def
        example_gui_program_def uniform_upload_calls_def gui_model_matrix_def
        color_texture_name_def texture_manager_holding_def)
qed

text \<open>
  C9. Under the same conditions the GUI pass draws every renderable of the bucket
  \<open>gui\<close>, in order, whatever its geometry says about uploaded data: a renderable
  without uploaded data is drawn by the GUI pass, and passed over by the loop of
  \<open>render_shader\<close>. Every texture binding of the GUI pass is at binding point 0, so
  nothing is bound at the lightmap's point 3, and the pass uploads one matrix, the
  viewport transform, and none per renderable.
\<close>

theorem render_gui_draws_without_data_check:
  assumes "loaded_shaderpack r = Some pack"
    and "get_shader pack ''gui'' = Inr gui_shader"
    and "\<forall>g \<in> set (meshes c ''gui''). color_texture g \<noteq> [] \<longrightarrow>
           (\<exists>t. texture_manager c (color_texture g) = Inr t)"
  shows "drawn (calls (render_gui c r)) = map geometry (meshes c ''gui'')
       \<and> (\<forall>g \<in> set (meshes c ''gui''). \<not> has_data (geometry g) \<longrightarrow>
            drawn (calls (draw_gui_renderable c g p)) = [geometry g]
            \<and> drawn (calls (process_renderable c g p)) = [])
       \<and> (\<forall>b \<in> set (texture_bindings (calls (render_gui c r))). snd b = 0)
       \<and> matrix_uploads (calls (render_gui c r)) =
            [(model_location c gui_shader, gui_model_matrix (options c))]"
proof (intro conjI ballI impI)
  have gui: "map_of (loaded_shaders pack) ''gui'' = Some gui_shader"
    using assms(2) by (simp add: get_shader_def split: option.splits)
  note run = render_gui_run [OF assms(1) gui assms(3)]
  show "drawn (calls (render_gui c r)) = map geometry (meshes c ''gui'')"
    unfolding run by (simp add: drawn_gui_loop)
  show "matrix_uploads (calls (render_gui c r)) =
            [(model_location c gui_shader, gui_model_matrix (options c))]"
    unfolding run by (simp add: matrix_uploads_gui_loop)
  show "snd b = 0" if "b \<in> set (texture_bindings (calls (render_gui c r)))" for b
    using that unfolding run by (auto dest: texture_bindings_gui_loop)
  show "drawn (calls (draw_gui_renderable c g p)) = [geometry g]"
    if "g \<in> set (meshes c ''gui'')" for g
  proof -
    have "color_texture g \<noteq> [] \<longrightarrow> (\<exists>t. texture_manager c (color_texture g) = Inr t)"
      using assms(3) that by simp
    then show ?thesis
      by (simp add: draw_gui_renderable_run)
  qed
  show "drawn (calls (process_renderable c g p)) = []" if "\<not> has_data (geometry g)" for g
    using that by (simp add: process_renderable_no_data returns_def)
qed

theorem render_gui_draws_without_data_check_witness:
  "loaded_shaderpack example_renderer = Some example_pack
   \<and> get_shader example_pack ''gui'' = Inr example_gui_program
   \<and> \<not> has_data (geometry example_button)
   \<and> drawn (calls (render_gui example_collaborators example_renderer)) =
       [\<lparr>vertex_array = 31, has_data = False\<rparr>, \<lparr>vertex_array = 32, has_data = True\<rparr>]
   \<and> drawn (calls (process_renderable example_collaborators example_button example_gui_program)) = []
   \<and> matrix_uploads (calls (render_gui example_collaborators example_renderer)) =
       [(4, gui_model_matrix (options example_collaborators))]"
proof -
  have h1: "loaded_shaderpack example_renderer = Some example_pack"
    by (simp add: example_renderer_def)
  have h2: "get_shader example_pack ''gui'' = Inr example_gui_program"
    by (simp add: get_shader_def example_pack_def)
  have h3: "\<forall>g \<in> set (meshes example_collaborators ''gui''). color_texture g \<noteq> [] \<longrightarrow>
           (\<exists>t. texture_manager example_collaborators (color_texture g) = Inr t)"
    by (simp add: example_collaborators_def example_button_def example_panel_def
        texture_manager_holding_def)
  have h4: "\<not> has_data (geometry example_button)"
    by (simp add: example_button_def)
  have h5: "example_button \<in> set (meshes example_collaborators ''gui'')"
    by (simp add: example_collaborators_def)
  have h6: "model_location example_collaborators example_gui_program = 4"
    by (simp add: model_location_def example_gui_program_def)
  have h7: "map geometry (meshes example_collaborators ''gui'') =
       [\<lparr>vertex_array = 31, has_data = False\<rparr>, \<lparr>vertex_array = 32, has_data = True\<rparr>]"
    by (simp add: example_collaborators_def example_button_def example_panel_def)
  show ?thesis
    using h1 h2 h4 h5 h6 h7
      render_gui_draws_without_data_check
        [OF h1 h2 h3, where p = example_gui_program]
    by auto
qed

end
